theory Spec2Isabelle
  imports Main "HOL-Library.Word"
begin

section \<open>The payment handler of the bridge server\<close>

text \<open>
  This theory embeds \<^verbatim>\<open>RequestHandler.Payment\<close> of
  \<^verbatim>\<open>bridge/handlers/request_handler_payment.go\<close>.  The handler is one Go function that
  reads nine form fields, calls a number of collaborators and writes exactly one response.
  The collaborators (key parsing, the compliance server, federation, horizon, the
  transaction builder) live in other packages; they are fields of the record \<open>handler\<close>
  below, so every statement holds for any behaviour they may have.  Each call of a
  collaborator that leaves the process is appended to a list of calls, in the order in
  which the handler makes them.
\<close>

subsection \<open>Data\<close>

text \<open>The constants of package \<^verbatim>\<open>horizon\<close> that the handler passes to
  \<^verbatim>\<open>h.NewErrorResponse\<close>.\<close>

datatype error =
    PaymentInvalidSource
  | ServerError
  | PaymentCannotResolveDestination
  | PaymentInvalidDestination
  | PaymentInvalidIssuer
  | PaymentMissingParamAsset
  | PaymentMissingParamMemo
  | PaymentCannotUseMemo
  | PaymentInvalidMemo
  | PaymentSourceNotExist
  | PaymentMalformedAssetCode
  | PaymentInvalidAmount

text \<open>The form fields read with \<^verbatim>\<open>r.PostFormValue\<close>; a field that is absent reads as
  the empty string.\<close>

record request =
  source :: string
  destination :: string
  amount :: string
  asset_code :: string
  asset_issuer :: string
  memo_type :: string
  memo :: string
  extra_memo :: string
  sender :: string

text \<open>The value returned by \<^verbatim>\<open>federation.Resolve\<close>; \<^verbatim>\<open>MemoType\<close> and
  \<^verbatim>\<open>Memo\<close> are pointers to strings, \<open>None\<close> is the nil pointer.\<close>

record destinationObject =
  AccountId :: string
  MemoType :: "string option"
  Memo :: "string option"

text \<open>The mutators of package \<^verbatim>\<open>build\<close> that the handler creates.\<close>

datatype amount_mutator =
    NativeAmount string
  | CreditAmount string string string

datatype operation =
    is_Payment: b_Payment string amount_mutator
  | is_CreateAccount: b_CreateAccount string amount_mutator

datatype memo_mutator =
    MemoID "64 word"
  | MemoText string
  | MemoHash "8 word list"

text \<open>The arguments of \<^verbatim>\<open>b.Transaction\<close>, in the order of the slice
  \<^verbatim>\<open>transactionMutators\<close>; the memo mutator is appended only when it is not nil.\<close>

record transaction =
  SourceAccount :: string
  Sequence :: "64 word"
  Network :: string
  Operation :: operation
  MemoMutator :: "memo_mutator option"

text \<open>An HTTP response: its status code and the result of reading its body (\<open>None\<close>
  when \<^verbatim>\<open>ioutil.ReadAll\<close> fails).\<close>

record http_response =
  StatusCode :: int
  Body :: "string option"

text \<open>The parts of \<^verbatim>\<open>rh.Config\<close> that the handler reads.  \<^verbatim>\<open>Compliance\<close> and
  \<^verbatim>\<open>Accounts.IssuingSeed\<close> are pointers to strings.\<close>

record config =
  Compliance :: "string option"
  IssuingSeed :: "string option"
  NetworkPassphrase :: string

text \<open>
  The handler with its collaborators.  A Go function that returns a value and an error is
  a function into \<open>option\<close>, \<open>None\<close> standing for a non-nil error.
  \<^item> \<open>keypair_Parse\<close> gives the address of the parsed key pair;
  \<^item> \<open>json_Unmarshal\<close> gives the field \<^verbatim>\<open>TransactionXdr\<close> of the decoded
    \<^verbatim>\<open>compliance.SendResponse\<close>;
  \<^item> \<open>LoadAccount\<close> gives the field \<^verbatim>\<open>SequenceNumber\<close> of the account response;
  \<^item> \<open>Transaction_Err\<close> gives the text of \<^verbatim>\<open>tx.Err\<close> of the built transaction,
    \<open>None\<close> when it is nil;
  \<^item> \<open>Sign_Base64\<close> is \<^verbatim>\<open>tx.Sign(source)\<close> followed by \<^verbatim>\<open>txe.Base64()\<close>.
\<close>

record handler =
  Config :: config
  keypair_Parse :: "string \<Rightarrow> string option"
  http_PostForm :: "string \<Rightarrow> (string \<times> string) list \<Rightarrow> http_response option"
  json_Unmarshal :: "string \<Rightarrow> string option"
  xdr_SafeUnmarshalBase64 :: "string \<Rightarrow> string option"
  SignAndSubmitRawTransaction :: "string \<Rightarrow> string \<Rightarrow> string option"
  federation_Resolve :: "string \<Rightarrow> destinationObject option"
  LoadAccount :: "string \<Rightarrow> string option"
  Transaction_Err :: "transaction \<Rightarrow> string option"
  Sign_Base64 :: "string \<Rightarrow> transaction \<Rightarrow> string option"
  SubmitTransaction :: "string \<Rightarrow> string option"

text \<open>The calls that leave the process.\<close>

datatype call =
    is_PostForm: Call_PostForm string "(string \<times> string) list"
  | is_Resolve: Call_Resolve string
  | is_LoadAccount: Call_LoadAccount string
  | is_SignAndSubmitRaw: Call_SignAndSubmitRawTransaction string string
  | is_Submit: Call_SubmitTransaction string

text \<open>
  What one run of the handler does: it writes an error response, or writes the submit
  response, or panics (a nil pointer is dereferenced and nothing is written).
\<close>

datatype outcome =
    Failure error
  | Success string
  | Panic

text \<open>
  The observable result of one run: the calls made, the value of the variable
  \<^verbatim>\<open>operationBuilder\<close> when the run ended (\<open>None\<close> while it is still nil), the
  arguments given to \<^verbatim>\<open>b.Transaction\<close> if the run got that far, and the outcome.
\<close>

record run =
  calls :: "call list"
  operationBuilder :: "operation option"
  built :: "transaction option"
  outcome :: outcome

subsection \<open>Library functions used by the handler\<close>

text \<open>
  \<^verbatim>\<open>strconv.ParseUint(s, 10, 64)\<close>: the string must be non-empty and consist of decimal
  digits only (no sign, no underscore), and its value must fit 64 bits.  The digits
  \<^verbatim>\<open>0\<close> to \<^verbatim>\<open>9\<close> are the bytes 48 to 57.
\<close>

definition digit_val :: "char \<Rightarrow> nat option" where
  "digit_val c =
     (let n = (of_char c :: nat)
      in if 48 \<le> n \<and> n \<le> 57 then Some (n - 48) else None)"

fun parse_digits :: "nat \<Rightarrow> string \<Rightarrow> nat option" where
  "parse_digits n [] = Some n"
| "parse_digits n (c # cs) =
     (case digit_val c of
        None \<Rightarrow> None
      | Some d \<Rightarrow> parse_digits (n * 10 + d) cs)"

definition ParseUint :: "string \<Rightarrow> 64 word option" where
  "ParseUint s =
     (if s = [] then None
      else case parse_digits 0 s of
             None \<Rightarrow> None
           | Some n \<Rightarrow> if n < 2 ^ 64 then Some (of_nat n) else None)"

text \<open>
  \<^verbatim>\<open>hex.DecodeString\<close>: every two characters give one byte; a character that is not
  a hexadecimal digit (of either case) or an odd length is an error.  The letters
  \<^verbatim>\<open>a\<close> to \<^verbatim>\<open>f\<close> are the bytes 97 to 102, \<^verbatim>\<open>A\<close> to \<^verbatim>\<open>F\<close> the bytes 65 to 70.
\<close>

definition fromHexChar :: "char \<Rightarrow> nat option" where
  "fromHexChar c =
     (let n = (of_char c :: nat)
      in if 48 \<le> n \<and> n \<le> 57 then Some (n - 48)
         else if 97 \<le> n \<and> n \<le> 102 then Some (n - 97 + 10)
         else if 65 \<le> n \<and> n \<le> 70 then Some (n - 65 + 10)
         else None)"

fun DecodeString :: "string \<Rightarrow> 8 word list option" where
  "DecodeString [] = Some []"
| "DecodeString [c] = None"
| "DecodeString (p # q # cs) =
     (case fromHexChar p of
        None \<Rightarrow> None
      | Some a \<Rightarrow>
          (case fromHexChar q of
             None \<Rightarrow> None
           | Some b \<Rightarrow>
               (case DecodeString cs of
                  None \<Rightarrow> None
                | Some bs \<Rightarrow> Some (of_nat (a * 16 + b) # bs))))"

text \<open>\<^verbatim>\<open>strings.Contains\<close>.\<close>

fun Contains :: "string \<Rightarrow> string \<Rightarrow> bool" where
  "Contains [] substr = (substr = [])"
| "Contains (c # cs) substr = (take (length substr) (c # cs) = substr \<or> Contains cs substr)"

subsection \<open>The handler\<close>

text \<open>Writing an error response and returning (\<^verbatim>\<open>server.Write\<close> followed by
  \<^verbatim>\<open>return\<close>): no transaction has been built.\<close>

definition respond :: "call list \<Rightarrow> operation option \<Rightarrow> outcome \<Rightarrow> run" where
  "respond cs ob out = \<lparr>calls = cs, operationBuilder = ob, built = None, outcome = out\<rparr>"

text \<open>
  Lines 41 to 101, the branch of the compliance server.  \<open>address\<close> is
  \<^verbatim>\<open>sourceKeypair.Address()\<close> and \<open>url\<close> is \<^verbatim>\<open>*rh.Config.Compliance\<close>.  The
  dereference \<^verbatim>\<open>*rh.Config.Accounts.IssuingSeed\<close> is evaluated before the call of
  \<^verbatim>\<open>SignAndSubmitRawTransaction\<close> and panics on a nil pointer.
\<close>

definition compliance_form :: "request \<Rightarrow> string \<Rightarrow> (string \<times> string) list" where
  "compliance_form r address =
     [(''source'', address),
      (''sender'', sender r),
      (''destination'', destination r),
      (''amount'', amount r),
      (''asset_code'', asset_code r),
      (''asset_issuer'', asset_issuer r),
      (''extra_memo'', extra_memo r)]"

definition compliance_relay :: "handler \<Rightarrow> request \<Rightarrow> string \<Rightarrow> string \<Rightarrow> run" where
  "compliance_relay rh r address url =
     (let cs = [Call_PostForm (url @ ''/send'') (compliance_form r address)]
      in case http_PostForm rh (url @ ''/send'') (compliance_form r address) of
           None \<Rightarrow> respond cs None (Failure ServerError)
         | Some resp \<Rightarrow>
             (case Body resp of
                None \<Rightarrow> respond cs None (Failure ServerError)
              | Some body \<Rightarrow>
                  if StatusCode resp \<noteq> 200 then respond cs None (Failure ServerError)
                  else
                    (case json_Unmarshal rh body of
                       None \<Rightarrow> respond cs None (Failure ServerError)
                     | Some transactionXdr \<Rightarrow>
                         (case xdr_SafeUnmarshalBase64 rh transactionXdr of
                            None \<Rightarrow> respond cs None (Failure ServerError)
                          | Some tx \<Rightarrow>
                              (case IssuingSeed (Config rh) of
                                 None \<Rightarrow> respond cs None Panic
                               | Some seed \<Rightarrow>
                                   (let cs' = cs @ [Call_SignAndSubmitRawTransaction seed tx]
                                    in case SignAndSubmitRawTransaction rh seed tx of
                                         None \<Rightarrow> respond cs' None (Failure ServerError)
                                       | Some submitResponse \<Rightarrow>
                                           respond cs' None (Success submitResponse)))))))"

text \<open>
  Lines 118 to 150: the choice of the operation.  The result is the calls made and either
  the error written or the new value of \<^verbatim>\<open>operationBuilder\<close>.  Any error of
  \<^verbatim>\<open>LoadAccount\<close> selects \<^verbatim>\<open>b.CreateAccount\<close>.
\<close>

definition select_operation ::
  "handler \<Rightarrow> string \<Rightarrow> string \<Rightarrow> string \<Rightarrow> string \<Rightarrow> call list \<times> (error + operation)" where
  "select_operation rh accountId assetCode assetIssuer amnt =
     (if assetCode \<noteq> [] \<and> assetIssuer \<noteq> [] then
        (case keypair_Parse rh assetIssuer of
           None \<Rightarrow> ([], Inl PaymentInvalidIssuer)
         | Some issuerAddress \<Rightarrow>
             ([], Inr (b_Payment accountId (CreditAmount assetCode issuerAddress amnt))))
      else if assetCode = [] \<and> assetIssuer = [] then
        (case LoadAccount rh accountId of
           None \<Rightarrow>
             ([Call_LoadAccount accountId], Inr (b_CreateAccount accountId (NativeAmount amnt)))
         | Some _ \<Rightarrow>
             ([Call_LoadAccount accountId], Inr (b_Payment accountId (NativeAmount amnt))))
      else ([], Inl PaymentMissingParamAsset))"

text \<open>
  Lines 152 to 167: the two memo parameters come together or not at all; a memo returned
  by federation excludes a memo in the request and replaces the (empty) one of the
  request.  The result is the outcome written, or the new values of \<^verbatim>\<open>memoType\<close>
  and \<^verbatim>\<open>memo\<close>.  Line 166 dereferences \<^verbatim>\<open>destinationObject.Memo\<close> without a check.
\<close>

definition memo_policy :: "destinationObject \<Rightarrow> string \<Rightarrow> string \<Rightarrow> outcome + string \<times> string" where
  "memo_policy d memoType mem =
     (if \<not> ((memoType = [] \<and> mem = []) \<or> (memoType \<noteq> [] \<and> mem \<noteq> [])) then
        Inl (Failure PaymentMissingParamMemo)
      else
        (case MemoType d of
           None \<Rightarrow> Inr (memoType, mem)
         | Some mt \<Rightarrow>
             if memoType \<noteq> [] then Inl (Failure PaymentCannotUseMemo)
             else
               (case Memo d of
                  None \<Rightarrow> Inl Panic
                | Some m \<Rightarrow> Inr (mt, m))))"

text \<open>
  Lines 169 to 198: the switch on \<^verbatim>\<open>memoType\<close>.  The result is the error written or
  the value of \<^verbatim>\<open>memoMutator\<close> (\<open>None\<close> for nil).  The default case writes
  \<^verbatim>\<open>h.PaymentInvalidMemo\<close>.
\<close>

definition memo_dispatch :: "string \<Rightarrow> string \<Rightarrow> error + memo_mutator option" where
  "memo_dispatch memoType mem =
     (if memoType = [] then Inr None
      else if memoType = ''id'' then
        (case ParseUint mem of
           None \<Rightarrow> Inl PaymentInvalidMemo
         | Some memoId \<Rightarrow> Inr (Some (MemoID memoId)))
      else if memoType = ''text'' then Inr (Some (MemoText mem))
      else if memoType = ''hash'' then
        (case DecodeString mem of
           None \<Rightarrow> Inl PaymentInvalidMemo
         | Some memoBytes \<Rightarrow>
             if length memoBytes \<noteq> 32 then Inl PaymentInvalidMemo
             else Inr (Some (MemoHash (take 32 memoBytes))))
      else Inl PaymentInvalidMemo)"

text \<open>Lines 231 to 239: the error written for a builder error with text \<open>msg\<close>.\<close>

definition builder_error :: "string \<Rightarrow> error" where
  "builder_error msg =
     (if msg = ''Asset code length is invalid'' then PaymentMalformedAssetCode
      else if Contains msg ''cannot parse amount'' then PaymentInvalidAmount
      else ServerError)"

text \<open>
  Lines 200 to 260: the source account is loaded, its sequence number parsed and
  incremented in \<^verbatim>\<open>uint64\<close>, the transaction built, signed, encoded and submitted.
  \<open>cs\<close> is the calls made so far.
\<close>

definition assemble_and_submit ::
  "handler \<Rightarrow> request \<Rightarrow> string \<Rightarrow> call list \<Rightarrow> operation \<Rightarrow> memo_mutator option \<Rightarrow> run" where
  "assemble_and_submit rh r address cs ob memoMutator =
     (let cs1 = cs @ [Call_LoadAccount address]
      in case LoadAccount rh address of
           None \<Rightarrow> respond cs1 (Some ob) (Failure PaymentSourceNotExist)
         | Some accountSequenceNumber \<Rightarrow>
             (case ParseUint accountSequenceNumber of
                None \<Rightarrow> respond cs1 (Some ob) (Failure ServerError)
              | Some sequenceNumber \<Rightarrow>
                  (let tx = \<lparr>SourceAccount = source r,
                             Sequence = sequenceNumber + 1,
                             Network = NetworkPassphrase (Config rh),
                             Operation = ob,
                             MemoMutator = memoMutator\<rparr>
                   in case Transaction_Err rh tx of
                        Some msg \<Rightarrow>
                          \<lparr>calls = cs1, operationBuilder = Some ob, built = Some tx,
                           outcome = Failure (builder_error msg)\<rparr>
                      | None \<Rightarrow>
                          (case Sign_Base64 rh (source r) tx of
                             None \<Rightarrow>
                               \<lparr>calls = cs1, operationBuilder = Some ob, built = Some tx,
                                outcome = Failure ServerError\<rparr>
                           | Some txeB64 \<Rightarrow>
                               (let cs2 = cs1 @ [Call_SubmitTransaction txeB64]
                                in case SubmitTransaction rh txeB64 of
                                     None \<Rightarrow>
                                       \<lparr>calls = cs2, operationBuilder = Some ob, built = Some tx,
                                        outcome = Failure ServerError\<rparr>
                                   | Some submitResponse \<Rightarrow>
                                       \<lparr>calls = cs2, operationBuilder = Some ob, built = Some tx,
                                        outcome = Success submitResponse\<rparr>)))))"

text \<open>Lines 104 to 260, the branch without the compliance server.\<close>

definition direct_assembly :: "handler \<Rightarrow> request \<Rightarrow> string \<Rightarrow> run" where
  "direct_assembly rh r address =
     (let cs0 = [Call_Resolve (destination r)]
      in case federation_Resolve rh (destination r) of
           None \<Rightarrow> respond cs0 None (Failure PaymentCannotResolveDestination)
         | Some d \<Rightarrow>
             (case keypair_Parse rh (AccountId d) of
                None \<Rightarrow> respond cs0 None (Failure PaymentInvalidDestination)
              | Some _ \<Rightarrow>
                  (case select_operation rh (AccountId d) (asset_code r) (asset_issuer r) (amount r) of
                     (cs', Inl e) \<Rightarrow> respond (cs0 @ cs') None (Failure e)
                   | (cs', Inr ob) \<Rightarrow>
                       (case memo_policy d (memo_type r) (memo r) of
                          Inl out \<Rightarrow> respond (cs0 @ cs') (Some ob) out
                        | Inr (memoType, mem) \<Rightarrow>
                            (case memo_dispatch memoType mem of
                               Inl e \<Rightarrow> respond (cs0 @ cs') (Some ob) (Failure e)
                             | Inr memoMutator \<Rightarrow>
                                 assemble_and_submit rh r address (cs0 @ cs') ob memoMutator)))))"

text \<open>Line 39, the condition under which the request goes to the compliance server.\<close>

definition relayed :: "handler \<Rightarrow> request \<Rightarrow> bool" where
  "relayed rh r \<longleftrightarrow> extra_memo r \<noteq> [] \<and> Compliance (Config rh) \<noteq> None"

text \<open>The handler, lines 22 to 261.\<close>

definition Payment :: "handler \<Rightarrow> request \<Rightarrow> run" where
  "Payment rh r =
     (case keypair_Parse rh (source r) of
        None \<Rightarrow> respond [] None (Failure PaymentInvalidSource)
      | Some address \<Rightarrow>
          (case Compliance (Config rh) of
             None \<Rightarrow> direct_assembly rh r address
           | Some url \<Rightarrow>
               if extra_memo r \<noteq> [] then compliance_relay rh r address url
               else direct_assembly rh r address))"

subsection \<open>Path conditions\<close>

text \<open>
  The run reaches line 152 (the first memo check) with \<^verbatim>\<open>destinationObject\<close> \<open>d\<close> and
  \<^verbatim>\<open>operationBuilder\<close> \<open>ob\<close>: the source parses (line 25), the request does not go to
  the compliance server (line 39), the destination resolves to \<open>d\<close> (line 105), the
  account id of \<open>d\<close> parses (line 112) and the choice of the operation gives \<open>ob\<close>
  (lines 120 to 150).
\<close>

definition reaches_memo_policy :: "handler \<Rightarrow> request \<Rightarrow> destinationObject \<Rightarrow> operation \<Rightarrow> bool" where
  "reaches_memo_policy rh r d ob \<longleftrightarrow>
     keypair_Parse rh (source r) \<noteq> None \<and>
     \<not> relayed rh r \<and>
     federation_Resolve rh (destination r) = Some d \<and>
     keypair_Parse rh (AccountId d) \<noteq> None \<and>
     snd (select_operation rh (AccountId d) (asset_code r) (asset_issuer r) (amount r)) = Inr ob"

text \<open>
  The run reaches the switch of line 170 with the values \<open>memoType\<close> and \<open>mem\<close> of the
  variables \<^verbatim>\<open>memoType\<close> and \<^verbatim>\<open>memo\<close>: it reaches line 152 and passes the checks of
  lines 152 to 167.
\<close>

definition reaches_memo_dispatch ::
  "handler \<Rightarrow> request \<Rightarrow> destinationObject \<Rightarrow> operation \<Rightarrow> string \<Rightarrow> string \<Rightarrow> bool" where
  "reaches_memo_dispatch rh r d ob memoType mem \<longleftrightarrow>
     reaches_memo_policy rh r d ob \<and>
     memo_policy d (memo_type r) (memo r) = Inr (memoType, mem)"

text \<open>A string of hexadecimal digits.\<close>

definition is_hex :: "string \<Rightarrow> bool" where
  "is_hex s \<longleftrightarrow> list_all (\<lambda>c. fromHexChar c \<noteq> None) s"

subsection \<open>The stages of the pipeline, each checked on its own\<close>

text \<open>
  The specification describes the handler as a pipeline of stages that fails at the
  first stage finding a defect.  Here every stage is a check of its own, which looks
  only at what it needs and gives the outcome it would write, or \<open>None\<close> when it finds
  nothing (also when what it needs is not available because a collaborator failed).
  The checks are then listed in the order of the pipeline.
\<close>

fun first_defect :: "outcome option list \<Rightarrow> outcome option" where
  "first_defect [] = None"
| "first_defect (None # cs) = first_defect cs"
| "first_defect (Some out # cs) = Some out"

definition source_check :: "handler \<Rightarrow> request \<Rightarrow> outcome option" where
  "source_check rh r =
     (case keypair_Parse rh (source r) of
        None \<Rightarrow> Some (Failure PaymentInvalidSource)
      | Some _ \<Rightarrow> None)"

definition resolve_check :: "handler \<Rightarrow> request \<Rightarrow> outcome option" where
  "resolve_check rh r =
     (case federation_Resolve rh (destination r) of
        None \<Rightarrow> Some (Failure PaymentCannotResolveDestination)
      | Some _ \<Rightarrow> None)"

definition account_id_check :: "handler \<Rightarrow> request \<Rightarrow> outcome option" where
  "account_id_check rh r =
     (case federation_Resolve rh (destination r) of
        None \<Rightarrow> None
      | Some d \<Rightarrow>
          (case keypair_Parse rh (AccountId d) of
             None \<Rightarrow> Some (Failure PaymentInvalidDestination)
           | Some _ \<Rightarrow> None))"

definition asset_check :: "handler \<Rightarrow> request \<Rightarrow> outcome option" where
  "asset_check rh r =
     (if asset_code r \<noteq> [] \<and> asset_issuer r \<noteq> [] then
        (case keypair_Parse rh (asset_issuer r) of
           None \<Rightarrow> Some (Failure PaymentInvalidIssuer)
         | Some _ \<Rightarrow> None)
      else if (asset_code r = []) \<noteq> (asset_issuer r = []) then
        Some (Failure PaymentMissingParamAsset)
      else None)"

definition memo_pair_check :: "request \<Rightarrow> outcome option" where
  "memo_pair_check r =
     (if (memo_type r = []) \<noteq> (memo r = []) then Some (Failure PaymentMissingParamMemo)
      else None)"

definition memo_conflict_check :: "handler \<Rightarrow> request \<Rightarrow> outcome option" where
  "memo_conflict_check rh r =
     (case federation_Resolve rh (destination r) of
        None \<Rightarrow> None
      | Some d \<Rightarrow>
          if MemoType d \<noteq> None \<and> memo_type r \<noteq> [] then Some (Failure PaymentCannotUseMemo)
          else None)"

definition memo_pointer_check :: "handler \<Rightarrow> request \<Rightarrow> outcome option" where
  "memo_pointer_check rh r =
     (case federation_Resolve rh (destination r) of
        None \<Rightarrow> None
      | Some d \<Rightarrow> if MemoType d \<noteq> None \<and> Memo d = None then Some Panic else None)"

text \<open>The memo in force: the one of federation when there is one, else the one of the
  request.\<close>

definition memo_in_force :: "handler \<Rightarrow> request \<Rightarrow> string \<times> string" where
  "memo_in_force rh r =
     (case federation_Resolve rh (destination r) of
        None \<Rightarrow> (memo_type r, memo r)
      | Some d \<Rightarrow>
          (case (MemoType d, Memo d) of
             (Some mt, Some m) \<Rightarrow> (mt, m)
           | _ \<Rightarrow> (memo_type r, memo r)))"

definition memo_value_check :: "handler \<Rightarrow> request \<Rightarrow> outcome option" where
  "memo_value_check rh r =
     (case memo_dispatch (fst (memo_in_force rh r)) (snd (memo_in_force rh r)) of
        Inl e \<Rightarrow> Some (Failure e)
      | Inr _ \<Rightarrow> None)"

definition source_account_check :: "handler \<Rightarrow> request \<Rightarrow> outcome option" where
  "source_account_check rh r =
     (case keypair_Parse rh (source r) of
        None \<Rightarrow> None
      | Some address \<Rightarrow>
          (case LoadAccount rh address of
             None \<Rightarrow> Some (Failure PaymentSourceNotExist)
           | Some _ \<Rightarrow> None))"

definition sequence_check :: "handler \<Rightarrow> request \<Rightarrow> outcome option" where
  "sequence_check rh r =
     (case keypair_Parse rh (source r) of
        None \<Rightarrow> None
      | Some address \<Rightarrow>
          (case LoadAccount rh address of
             None \<Rightarrow> None
           | Some s \<Rightarrow>
               (case ParseUint s of
                  None \<Rightarrow> Some (Failure ServerError)
                | Some _ \<Rightarrow> None)))"

text \<open>The transaction that the request asks for, when all its parts are available.\<close>

definition intended_transaction :: "handler \<Rightarrow> request \<Rightarrow> transaction option" where
  "intended_transaction rh r =
     (case (federation_Resolve rh (destination r),
            Option.bind (keypair_Parse rh (source r)) (LoadAccount rh)) of
        (Some d, Some s) \<Rightarrow>
          (case (snd (select_operation rh (AccountId d) (asset_code r) (asset_issuer r) (amount r)),
                 memo_dispatch (fst (memo_in_force rh r)) (snd (memo_in_force rh r)),
                 ParseUint s) of
             (Inr ob, Inr memoMutator, Some sequenceNumber) \<Rightarrow>
               Some \<lparr>SourceAccount = source r,
                     Sequence = sequenceNumber + 1,
                     Network = NetworkPassphrase (Config rh),
                     Operation = ob,
                     MemoMutator = memoMutator\<rparr>
           | _ \<Rightarrow> None)
      | _ \<Rightarrow> None)"

definition builder_check :: "handler \<Rightarrow> request \<Rightarrow> outcome option" where
  "builder_check rh r =
     (case intended_transaction rh r of
        None \<Rightarrow> None
      | Some tx \<Rightarrow>
          (case Transaction_Err rh tx of
             None \<Rightarrow> None
           | Some msg \<Rightarrow> Some (Failure (builder_error msg))))"

definition encode_check :: "handler \<Rightarrow> request \<Rightarrow> outcome option" where
  "encode_check rh r =
     (case intended_transaction rh r of
        None \<Rightarrow> None
      | Some tx \<Rightarrow>
          (case Sign_Base64 rh (source r) tx of
             None \<Rightarrow> Some (Failure ServerError)
           | Some _ \<Rightarrow> None))"

definition submit_check :: "handler \<Rightarrow> request \<Rightarrow> outcome option" where
  "submit_check rh r =
     (case intended_transaction rh r of
        None \<Rightarrow> None
      | Some tx \<Rightarrow>
          (case Sign_Base64 rh (source r) tx of
             None \<Rightarrow> None
           | Some txeB64 \<Rightarrow>
               (case SubmitTransaction rh txeB64 of
                  None \<Rightarrow> Some (Failure ServerError)
                | Some _ \<Rightarrow> None)))"

definition direct_checks :: "handler \<Rightarrow> request \<Rightarrow> outcome option list" where
  "direct_checks rh r =
     [resolve_check rh r,
      account_id_check rh r,
      asset_check rh r,
      memo_pair_check r,
      memo_conflict_check rh r,
      memo_pointer_check rh r,
      memo_value_check rh r,
      source_account_check rh r,
      sequence_check rh r,
      builder_check rh r,
      encode_check rh r,
      submit_check rh r]"

text \<open>The answer of the compliance server to the request, when both the source and the
  address of the server are available.\<close>

definition compliance_answer :: "handler \<Rightarrow> request \<Rightarrow> http_response option option" where
  "compliance_answer rh r =
     (case (keypair_Parse rh (source r), Compliance (Config rh)) of
        (Some address, Some url) \<Rightarrow>
          Some (http_PostForm rh (url @ ''/send'') (compliance_form r address))
      | _ \<Rightarrow> None)"

definition transport_check :: "handler \<Rightarrow> request \<Rightarrow> outcome option" where
  "transport_check rh r =
     (case compliance_answer rh r of
        Some None \<Rightarrow> Some (Failure ServerError)
      | _ \<Rightarrow> None)"

definition body_check :: "handler \<Rightarrow> request \<Rightarrow> outcome option" where
  "body_check rh r =
     (case compliance_answer rh r of
        Some (Some resp) \<Rightarrow> if Body resp = None then Some (Failure ServerError) else None
      | _ \<Rightarrow> None)"

definition status_check :: "handler \<Rightarrow> request \<Rightarrow> outcome option" where
  "status_check rh r =
     (case compliance_answer rh r of
        Some (Some resp) \<Rightarrow> if StatusCode resp \<noteq> 200 then Some (Failure ServerError) else None
      | _ \<Rightarrow> None)"

text \<open>The transaction decoded from the answer of the compliance server: \<open>None\<close> when
  there is no body, else the results of the two decoding steps.\<close>

definition envelope_check :: "handler \<Rightarrow> request \<Rightarrow> outcome option" where
  "envelope_check rh r =
     (case compliance_answer rh r of
        Some (Some resp) \<Rightarrow>
          (case Body resp of
             None \<Rightarrow> None
           | Some body \<Rightarrow>
               (case json_Unmarshal rh body of
                  None \<Rightarrow> Some (Failure ServerError)
                | Some transactionXdr \<Rightarrow>
                    (case xdr_SafeUnmarshalBase64 rh transactionXdr of
                       None \<Rightarrow> Some (Failure ServerError)
                     | Some _ \<Rightarrow> None)))
      | _ \<Rightarrow> None)"

definition seed_check :: "handler \<Rightarrow> outcome option" where
  "seed_check rh = (if IssuingSeed (Config rh) = None then Some Panic else None)"

definition raw_submit_check :: "handler \<Rightarrow> request \<Rightarrow> outcome option" where
  "raw_submit_check rh r =
     (case (compliance_answer rh r, IssuingSeed (Config rh)) of
        (Some (Some resp), Some seed) \<Rightarrow>
          (case Option.bind (Option.bind (Body resp) (json_Unmarshal rh))
                  (xdr_SafeUnmarshalBase64 rh) of
             None \<Rightarrow> None
           | Some tx \<Rightarrow>
               (case SignAndSubmitRawTransaction rh seed tx of
                  None \<Rightarrow> Some (Failure ServerError)
                | Some _ \<Rightarrow> None))
      | _ \<Rightarrow> None)"

definition relay_checks :: "handler \<Rightarrow> request \<Rightarrow> outcome option list" where
  "relay_checks rh r =
     [transport_check rh r,
      body_check rh r,
      status_check rh r,
      envelope_check rh r,
      seed_check rh,
      raw_submit_check rh r]"

definition pipeline_checks :: "handler \<Rightarrow> request \<Rightarrow> outcome option list" where
  "pipeline_checks rh r =
     source_check rh r # (if relayed rh r then relay_checks rh r else direct_checks rh r)"

subsection \<open>A handler and requests to compute with\<close>

text \<open>
  A handler whose collaborators are small tables.  The seeds \<^verbatim>\<open>SA\<close> and \<^verbatim>\<open>SMAX\<close> and
  the addresses \<^verbatim>\<open>GA\<close>, \<^verbatim>\<open>GB\<close>, \<^verbatim>\<open>GC\<close> and \<^verbatim>\<open>GMAX\<close> parse; the accounts \<^verbatim>\<open>GA\<close>,
  \<^verbatim>\<open>GC\<close> and \<^verbatim>\<open>GMAX\<close> exist, \<^verbatim>\<open>GB\<close> does not; \<^verbatim>\<open>GMAX\<close> has the largest sequence
  number that \<^verbatim>\<open>ParseUint\<close> accepts.  Federation knows five names, three of them with
  a memo.  A compliance server is configured and answers every request.
\<close>

definition example_Parse :: "string \<Rightarrow> string option" where
  "example_Parse s =
     (if s = ''SA'' then Some ''GA''
      else if s = ''SMAX'' then Some ''GMAX''
      else if s \<in> {''GA'', ''GB'', ''GC'', ''GMAX''} then Some s
      else None)"

definition example_Resolve :: "string \<Rightarrow> destinationObject option" where
  "example_Resolve s =
     (if s = ''GB'' then Some \<lparr>AccountId = ''GB'', MemoType = None, Memo = None\<rparr>
      else if s = ''GC'' then Some \<lparr>AccountId = ''GC'', MemoType = None, Memo = None\<rparr>
      else if s = ''bob*example.com'' then
        Some \<lparr>AccountId = ''GC'', MemoType = Some ''id'', Memo = Some ''7''\<rparr>
      else if s = ''carol*example.com'' then
        Some \<lparr>AccountId = ''GC'', MemoType = Some ''note'', Memo = Some ''hello''\<rparr>
      else if s = ''dave*example.com'' then
        Some \<lparr>AccountId = ''GC'', MemoType = Some ''id'', Memo = Some ''seven''\<rparr>
      else None)"

definition example_LoadAccount :: "string \<Rightarrow> string option" where
  "example_LoadAccount a =
     (if a = ''GA'' then Some ''41''
      else if a = ''GC'' then Some ''5''
      else if a = ''GMAX'' then Some ''18446744073709551615''
      else None)"

definition example_handler :: handler where
  "example_handler =
     \<lparr>Config = \<lparr>Compliance = Some ''http://compliance'', IssuingSeed = Some ''SI'',
                NetworkPassphrase = ''Test Network''\<rparr>,
      keypair_Parse = example_Parse,
      http_PostForm = (\<lambda>url form. Some \<lparr>StatusCode = 200, Body = Some ''body''\<rparr>),
      json_Unmarshal = (\<lambda>body. Some ''xdr''),
      xdr_SafeUnmarshalBase64 = (\<lambda>x. Some ''tx''),
      SignAndSubmitRawTransaction = (\<lambda>seed tx. Some ''submitted''),
      federation_Resolve = example_Resolve,
      LoadAccount = example_LoadAccount,
      Transaction_Err = (\<lambda>tx. None),
      Sign_Base64 = (\<lambda>seed tx. Some ''envelope''),
      SubmitTransaction = (\<lambda>txeB64. Some ''submitted'')\<rparr>"

text \<open>A payment of the native asset from \<^verbatim>\<open>SA\<close> to \<^verbatim>\<open>GC\<close> without a memo; the other
  requests below change single fields of it.\<close>

definition example_request :: request where
  "example_request =
     \<lparr>source = ''SA'', destination = ''GC'', amount = ''10'', asset_code = [],
      asset_issuer = [], memo_type = [], memo = [], extra_memo = [], sender = []\<rparr>"

text \<open>A memo of 64 hexadecimal digits, of both cases.\<close>

definition example_hash :: string where
  "example_hash = ''00112233445566778899aAbBcCdDeEfF00112233445566778899aabbccddeeff''"

subsection \<open>Failure of the compliance server\<close>

text \<open>
  The compliance server fails: the request cannot be sent, or the status is not 200, or
  the body cannot be read, or the body does not decode to a transaction.
\<close>

definition compliance_failure :: "handler \<Rightarrow> request \<Rightarrow> string \<Rightarrow> string \<Rightarrow> bool" where
  "compliance_failure rh r address url \<longleftrightarrow>
     (case http_PostForm rh (url @ ''/send'') (compliance_form r address) of
        None \<Rightarrow> True
      | Some resp \<Rightarrow>
          StatusCode resp \<noteq> 200 \<or>
          (case Body resp of
             None \<Rightarrow> True
           | Some body \<Rightarrow>
               (case json_Unmarshal rh body of
                  None \<Rightarrow> True
                | Some transactionXdr \<Rightarrow> xdr_SafeUnmarshalBase64 rh transactionXdr = None)))"

section \<open>Properties\<close>

subsection \<open>Shared lemmas\<close>

lemmas example_defs =
  example_handler_def example_request_def example_Parse_def example_Resolve_def
  example_LoadAccount_def

lemmas handler_defs =
  Payment_def direct_assembly_def compliance_relay_def select_operation_def memo_policy_def
  memo_dispatch_def assemble_and_submit_def respond_def

text \<open>What the handler does once it has reached line 152.\<close>

lemma reaches_memo_policy_Payment:
  assumes "reaches_memo_policy rh r d ob"
  shows "\<exists>a cs. keypair_Parse rh (source r) = Some a \<and>
     select_operation rh (AccountId d) (asset_code r) (asset_issuer r) (amount r) = (cs, Inr ob) \<and>
     Payment rh r =
       (case memo_policy d (memo_type r) (memo r) of
          Inl out \<Rightarrow> respond ([Call_Resolve (destination r)] @ cs) (Some ob) out
        | Inr (memoType, mem) \<Rightarrow>
            (case memo_dispatch memoType mem of
               Inl e \<Rightarrow> respond ([Call_Resolve (destination r)] @ cs) (Some ob) (Failure e)
             | Inr memoMutator \<Rightarrow>
                 assemble_and_submit rh r a ([Call_Resolve (destination r)] @ cs) ob memoMutator))"
proof -
  from assms obtain a a' where a: "keypair_Parse rh (source r) = Some a"
    and nr: "\<not> relayed rh r"
    and d: "federation_Resolve rh (destination r) = Some d"
    and a': "keypair_Parse rh (AccountId d) = Some a'"
    and ob: "snd (select_operation rh (AccountId d) (asset_code r) (asset_issuer r) (amount r)) = Inr ob"
    by (auto simp: reaches_memo_policy_def)
  obtain cs where cs:
    "select_operation rh (AccountId d) (asset_code r) (asset_issuer r) (amount r) = (cs, Inr ob)"
    using ob
    by (cases "select_operation rh (AccountId d) (asset_code r) (asset_issuer r) (amount r)") auto
  have "Payment rh r = direct_assembly rh r a"
    using a nr by (auto simp: Payment_def relayed_def split: option.splits)
  then show ?thesis
    using a d a' cs by (simp add: direct_assembly_def Let_def)
qed

lemma memo_dispatch_unsupported:
  "memoType \<noteq> [] \<Longrightarrow> memoType \<noteq> ''id'' \<Longrightarrow> memoType \<noteq> ''text'' \<Longrightarrow> memoType \<noteq> ''hash'' \<Longrightarrow>
   memo_dispatch memoType mem = Inl PaymentInvalidMemo"
  by (simp add: memo_dispatch_def)

lemma Payment_direct:
  "keypair_Parse rh (source r) = Some a \<Longrightarrow> \<not> relayed rh r \<Longrightarrow> Payment rh r = direct_assembly rh r a"
  by (auto simp: Payment_def relayed_def split: option.splits)

lemma Payment_relayed:
  "keypair_Parse rh (source r) = Some a \<Longrightarrow> extra_memo r \<noteq> [] \<Longrightarrow> Compliance (Config rh) = Some url \<Longrightarrow>
   Payment rh r = compliance_relay rh r a url"
  by (simp add: Payment_def)

lemma Payment_invalid_source:
  "keypair_Parse rh (source r) = None \<Longrightarrow> Payment rh r = respond [] None (Failure PaymentInvalidSource)"
  by (simp add: Payment_def)

lemma select_operation_one_missing:
  "(assetCode = []) \<noteq> (assetIssuer = []) \<Longrightarrow>
   select_operation rh accountId assetCode assetIssuer amnt = ([], Inl PaymentMissingParamAsset)"
  by (auto simp: select_operation_def)
lemma compliance_relay_no_operation:
  "operationBuilder (compliance_relay rh r a url) = None \<and> built (compliance_relay rh r a url) = None"
  by (simp add: compliance_relay_def respond_def Let_def split: option.splits)

lemma assemble_and_submit_operation:
  "operationBuilder (assemble_and_submit rh r a cs ob mm) = Some ob \<and>
   (\<forall>t. built (assemble_and_submit rh r a cs ob mm) = Some t \<longrightarrow> Operation t = ob \<and> MemoMutator t = mm)"
  by (simp add: assemble_and_submit_def respond_def Let_def split: option.splits)

lemma direct_assembly_operation:
  assumes "federation_Resolve rh (destination r) = Some d"
    and "select_operation rh (AccountId d) (asset_code r) (asset_issuer r) (amount r) = (cs, Inr ob)"
  shows "operationBuilder (direct_assembly rh r a) = (if keypair_Parse rh (AccountId d) = None then None else Some ob) \<and>
    (\<forall>t. built (direct_assembly rh r a) = Some t \<longrightarrow> Operation t = ob)"
  using assms assemble_and_submit_operation [of rh r a]
  by (auto simp: direct_assembly_def respond_def Let_def split: option.splits sum.splits prod.splits)

lemma Payment_cases:
  "(keypair_Parse rh (source r) = None \<and>
      Payment rh r = respond [] None (Failure PaymentInvalidSource)) \<or>
   (\<exists>a url. keypair_Parse rh (source r) = Some a \<and> relayed rh r \<and>
      Compliance (Config rh) = Some url \<and> Payment rh r = compliance_relay rh r a url) \<or>
   (\<exists>a. keypair_Parse rh (source r) = Some a \<and> \<not> relayed rh r \<and> Payment rh r = direct_assembly rh r a)"
  by (auto simp: Payment_def relayed_def split: option.splits)
lemma select_operation_credit:
  "assetCode \<noteq> [] \<Longrightarrow> assetIssuer \<noteq> [] \<Longrightarrow>
   fst (select_operation rh accountId assetCode assetIssuer amnt) = [] \<and>
   (\<forall>ob. snd (select_operation rh accountId assetCode assetIssuer amnt) = Inr ob \<longrightarrow> is_Payment ob)"
  by (auto simp: select_operation_def split: option.splits)

lemma select_operation_CreateAccount:
  "snd (select_operation rh accountId assetCode assetIssuer amnt) = Inr ob \<Longrightarrow> is_CreateAccount ob \<Longrightarrow>
   assetCode = [] \<and> assetIssuer = []"
  by (auto simp: select_operation_def split: option.splits if_splits)

lemma assemble_and_submit_calls:
  "filter is_LoadAccount (calls (assemble_and_submit rh r a cs ob mm)) =
     filter is_LoadAccount cs @ [Call_LoadAccount a]"
  by (simp add: assemble_and_submit_def respond_def Let_def split: option.splits)

lemma direct_assembly_operation_selected:
  "operationBuilder (direct_assembly rh r a) = Some ob \<Longrightarrow>
   \<exists>d. federation_Resolve rh (destination r) = Some d \<and>
       snd (select_operation rh (AccountId d) (asset_code r) (asset_issuer r) (amount r)) = Inr ob"
  using assemble_and_submit_operation [of rh r a]
  by (auto simp: direct_assembly_def respond_def Let_def split: option.splits sum.splits prod.splits)

lemma direct_assembly_built_operation:
  "built (direct_assembly rh r a) = Some t \<Longrightarrow> operationBuilder (direct_assembly rh r a) = Some (Operation t)"
  using assemble_and_submit_operation [of rh r a]
  by (auto simp: direct_assembly_def respond_def Let_def split: option.splits sum.splits prod.splits)


lemma assemble_and_submit_built:
  assumes "built (assemble_and_submit rh r a cs ob mm) = Some t"
  shows "\<exists>s n. LoadAccount rh a = Some s \<and> ParseUint s = Some n \<and>
     t = \<lparr>SourceAccount = source r, Sequence = n + 1, Network = NetworkPassphrase (Config rh),
          Operation = ob, MemoMutator = mm\<rparr> \<and>
     calls (assemble_and_submit rh r a cs ob mm) =
       cs @ [Call_LoadAccount a] @
       (case Transaction_Err rh t of
          Some _ \<Rightarrow> []
        | None \<Rightarrow> (case Sign_Base64 rh (source r) t of
                     None \<Rightarrow> []
                   | Some txeB64 \<Rightarrow> [Call_SubmitTransaction txeB64]))"
  using assms
  by (auto simp: assemble_and_submit_def respond_def Let_def split: option.splits)

lemma direct_assembly_built:
  assumes "built (direct_assembly rh r a) = Some t"
  shows "\<exists>d cs ob memoType mem.
     federation_Resolve rh (destination r) = Some d \<and>
     keypair_Parse rh (AccountId d) \<noteq> None \<and>
     select_operation rh (AccountId d) (asset_code r) (asset_issuer r) (amount r) = (cs, Inr ob) \<and>
     memo_policy d (memo_type r) (memo r) = Inr (memoType, mem) \<and>
     memo_dispatch memoType mem = Inr (MemoMutator t) \<and>
     Operation t = ob \<and>
     direct_assembly rh r a =
       assemble_and_submit rh r a ([Call_Resolve (destination r)] @ cs) ob (MemoMutator t)"
proof -
  from assms obtain d where d: "federation_Resolve rh (destination r) = Some d"
    by (cases "federation_Resolve rh (destination r)") (auto simp: direct_assembly_def respond_def)
  from assms d obtain a' where a': "keypair_Parse rh (AccountId d) = Some a'"
    by (cases "keypair_Parse rh (AccountId d)") (auto simp: direct_assembly_def respond_def)
  obtain cs res where sel:
    "select_operation rh (AccountId d) (asset_code r) (asset_issuer r) (amount r) = (cs, res)"
    by (cases "select_operation rh (AccountId d) (asset_code r) (asset_issuer r) (amount r)")
  from assms d a' sel obtain ob where ob: "res = Inr ob"
    by (cases res) (auto simp: direct_assembly_def respond_def)
  obtain pol where pol: "memo_policy d (memo_type r) (memo r) = pol" by simp
  from assms d a' sel ob pol obtain memoType mem where mp: "pol = Inr (memoType, mem)"
    by (cases pol) (auto simp: direct_assembly_def respond_def)
  obtain dis where dis: "memo_dispatch memoType mem = dis" by simp
  from assms d a' sel ob pol mp dis obtain mm where mm: "dis = Inr mm"
    by (cases dis) (auto simp: direct_assembly_def respond_def)
  have eq: "direct_assembly rh r a =
      assemble_and_submit rh r a ([Call_Resolve (destination r)] @ cs) ob mm"
    using d a' sel ob pol mp dis mm by (simp add: direct_assembly_def)
  with assms assemble_and_submit_operation [of rh r a "[Call_Resolve (destination r)] @ cs" ob mm]
  have "Operation t = ob" "MemoMutator t = mm" by auto
  with d a' sel ob pol mp dis mm eq show ?thesis by auto
qed

lemma select_operation_calls:
  "fst (select_operation rh accountId assetCode assetIssuer amnt) =
     (if assetCode = [] \<and> assetIssuer = [] then [Call_LoadAccount accountId] else [])"
  by (auto simp: select_operation_def split: option.splits)

lemma direct_assembly_loads:
  "filter is_LoadAccount (calls (direct_assembly rh r a)) = [] \<or>
   (\<exists>d. federation_Resolve rh (destination r) = Some d \<and>
      (filter is_LoadAccount (calls (direct_assembly rh r a)) =
         fst (select_operation rh (AccountId d) (asset_code r) (asset_issuer r) (amount r)) \<or>
       filter is_LoadAccount (calls (direct_assembly rh r a)) =
         fst (select_operation rh (AccountId d) (asset_code r) (asset_issuer r) (amount r)) @
         [Call_LoadAccount a]))"
proof (cases "federation_Resolve rh (destination r)")
  case None
  then show ?thesis by (simp add: direct_assembly_def respond_def)
next
  case (Some d)
  show ?thesis
  proof (cases "keypair_Parse rh (AccountId d)")
    case None
    with Some show ?thesis by (simp add: direct_assembly_def respond_def)
  next
    case (Some a')
    obtain cs res where sel:
      "select_operation rh (AccountId d) (asset_code r) (asset_issuer r) (amount r) = (cs, res)"
      by (cases "select_operation rh (AccountId d) (asset_code r) (asset_issuer r) (amount r)")
    have cs: "filter is_LoadAccount cs = cs"
      using select_operation_calls [of rh "AccountId d" "asset_code r" "asset_issuer r" "amount r"] sel
      by (auto split: if_splits)
    show ?thesis
      using \<open>federation_Resolve rh (destination r) = Some d\<close> Some sel cs
        assemble_and_submit_calls [of rh r a "[Call_Resolve (destination r)] @ cs"]
      by (auto simp: direct_assembly_def respond_def Let_def split: sum.splits prod.splits)
  qed
qed

lemma compliance_relay_loads:
  "filter is_LoadAccount (calls (compliance_relay rh r a url)) = []"
  by (simp add: compliance_relay_def respond_def Let_def split: option.splits)

lemma DecodeString_length:
  "DecodeString s = Some bs \<Longrightarrow> length s = 2 * length bs"
  by (induction s arbitrary: bs rule: DecodeString.induct) (auto split: option.splits)

lemma DecodeString_Some_hex:
  "DecodeString s = Some bs \<Longrightarrow> is_hex s"
  by (induction s arbitrary: bs rule: DecodeString.induct)
    (auto simp: is_hex_def split: option.splits)

lemma hex_DecodeString_Some:
  "even (length s) \<Longrightarrow> is_hex s \<Longrightarrow> \<exists>bs. DecodeString s = Some bs"
proof (induction s rule: DecodeString.induct)
  case 1
  then show ?case by simp
next
  case (2 c)
  then show ?case by simp
next
  case (3 p q cs)
  from "3.prems" obtain a b where a: "fromHexChar p = Some a" and b: "fromHexChar q = Some b"
    and cs: "even (length cs)" "is_hex cs"
    by (auto simp: is_hex_def)
  from "3.IH" [OF a b cs] a b show ?case by auto
qed

lemma DecodeString_Some_iff:
  "(\<exists>bs. DecodeString s = Some bs) \<longleftrightarrow> even (length s) \<and> is_hex s"
  using DecodeString_Some_hex [of s] DecodeString_length [of s] hex_DecodeString_Some [of s]
  by auto

lemma DecodeString_nth:
  "DecodeString s = Some bs \<Longrightarrow> i < length bs \<Longrightarrow>
   fromHexChar (s ! (2 * i)) \<noteq> None \<and> fromHexChar (s ! (2 * i + 1)) \<noteq> None \<and>
   bs ! i = of_nat (the (fromHexChar (s ! (2 * i))) * 16 + the (fromHexChar (s ! (2 * i + 1))))"
proof (induction s arbitrary: bs i rule: DecodeString.induct)
  case 1
  then show ?case by simp
next
  case (2 c)
  then show ?case by simp
next
  case (3 p q cs)
  from "3.prems"(1) obtain a b bs' where a: "fromHexChar p = Some a" and b: "fromHexChar q = Some b"
    and bs': "DecodeString cs = Some bs'" and bs: "bs = of_nat (a * 16 + b) # bs'"
    by (auto split: option.splits)
  show ?case
  proof (cases i)
    case 0
    then show ?thesis using a b bs by simp
  next
    case (Suc j)
    with "3.prems"(2) bs have j: "j < length bs'" by simp
    from "3.IH" [OF a b bs' j] show ?thesis using Suc bs by simp
  qed
qed

lemma memo_dispatch_hash:
  "memo_dispatch ''hash'' mem =
     (if length mem = 64 \<and> is_hex mem then Inr (Some (MemoHash (the (DecodeString mem))))
      else Inl PaymentInvalidMemo)"
proof (cases "DecodeString mem")
  case None
  with DecodeString_Some_iff [of mem] have "\<not> (length mem = 64 \<and> is_hex mem)" by auto
  with None show ?thesis by (auto simp: memo_dispatch_def)
next
  case (Some bs)
  with DecodeString_Some_iff [of mem] have h: "is_hex mem" by auto
  from DecodeString_length [OF Some] have "length mem = 64 \<longleftrightarrow> length bs = 32" by auto
  with Some h show ?thesis by (auto simp: memo_dispatch_def)
qed

lemma assemble_and_submit_outcome:
  "outcome (assemble_and_submit rh r a cs ob mm) \<noteq> Failure PaymentInvalidMemo"
  by (simp add: assemble_and_submit_def respond_def Let_def builder_error_def split: option.splits)

lemma Payment_built_direct:
  assumes "keypair_Parse rh (source r) = Some a" and "built (Payment rh r) = Some t"
  shows "Payment rh r = direct_assembly rh r a"
  using Payment_cases [of rh r] assms compliance_relay_no_operation [of rh r a]
  by (auto simp: respond_def)

text \<open>The handler against the list of checks, stage by stage.\<close>

lemma asset_check_select_operation:
  "asset_check rh r =
     (case snd (select_operation rh accountId (asset_code r) (asset_issuer r) amnt) of
        Inl e \<Rightarrow> Some (Failure e)
      | Inr _ \<Rightarrow> None)"
  by (auto simp: asset_check_def select_operation_def split: option.splits)

lemma memo_checks_memo_policy:
  assumes "federation_Resolve rh (destination r) = Some d"
  shows "first_defect (memo_pair_check r # memo_conflict_check rh r # memo_pointer_check rh r # cs) =
     (case memo_policy d (memo_type r) (memo r) of
        Inl out \<Rightarrow> Some out
      | Inr _ \<Rightarrow> first_defect cs)"
    and "memo_policy d (memo_type r) (memo r) = Inr p \<Longrightarrow> memo_in_force rh r = p"
  using assms
  by (auto simp: memo_pair_check_def memo_conflict_check_def memo_pointer_check_def
      memo_policy_def memo_in_force_def split: option.splits if_splits)

lemma assemble_checks_outcome:
  assumes "keypair_Parse rh (source r) = Some a"
    and "federation_Resolve rh (destination r) = Some d"
    and "select_operation rh (AccountId d) (asset_code r) (asset_issuer r) (amount r) = (cs, Inr ob)"
    and "memo_in_force rh r = (mt, m)"
    and "memo_dispatch mt m = Inr mm"
  shows "case first_defect [source_account_check rh r, sequence_check rh r, builder_check rh r,
                            encode_check rh r, submit_check rh r] of
           Some out \<Rightarrow> outcome (assemble_and_submit rh r a cs' ob mm) = out
         | None \<Rightarrow> (\<exists>resp. outcome (assemble_and_submit rh r a cs' ob mm) = Success resp)"
  using assms
  by (simp add: source_account_check_def sequence_check_def intended_transaction_def
      builder_check_def encode_check_def submit_check_def assemble_and_submit_def respond_def
      Let_def split: option.splits)

lemma direct_checks_outcome:
  assumes a: "keypair_Parse rh (source r) = Some a"
  shows "case first_defect (direct_checks rh r) of
           Some out \<Rightarrow> outcome (direct_assembly rh r a) = out
         | None \<Rightarrow> (\<exists>resp. outcome (direct_assembly rh r a) = Success resp)"
proof (cases "federation_Resolve rh (destination r)")
  case None
  then show ?thesis
    by (simp add: direct_checks_def resolve_check_def direct_assembly_def respond_def)
next
  case d: (Some d)
  then have rc: "resolve_check rh r = None" by (simp add: resolve_check_def)
  show ?thesis
  proof (cases "keypair_Parse rh (AccountId d)")
    case None
    with d rc show ?thesis
      by (simp add: direct_checks_def account_id_check_def direct_assembly_def respond_def)
  next
    case a': (Some a')
    with d have ac: "account_id_check rh r = None" by (simp add: account_id_check_def)
    obtain cs res where sel:
      "select_operation rh (AccountId d) (asset_code r) (asset_issuer r) (amount r) = (cs, res)"
      by (cases "select_operation rh (AccountId d) (asset_code r) (asset_issuer r) (amount r)")
    note asset = asset_check_select_operation [of rh r "AccountId d" "amount r"]
    show ?thesis
    proof (cases res)
      case (Inl e)
      with sel asset have "asset_check rh r = Some (Failure e)" by simp
      with d a' rc ac sel Inl show ?thesis
        by (simp add: direct_checks_def direct_assembly_def respond_def)
    next
      case ob: (Inr ob)
      with sel asset have sc: "asset_check rh r = None" by simp
      note memo = memo_checks_memo_policy [OF d]
      show ?thesis
      proof (cases "memo_policy d (memo_type r) (memo r)")
        case (Inl out)
        with d a' rc ac sel ob sc memo(1) show ?thesis
          by (simp add: direct_checks_def direct_assembly_def respond_def)
      next
        case (Inr p)
        obtain mt m where p: "p = (mt, m)" by (cases p)
        from memo(2) Inr p have force: "memo_in_force rh r = (mt, m)" by simp
        show ?thesis
        proof (cases "memo_dispatch mt m")
          case e: (Inl e)
          with force have "memo_value_check rh r = Some (Failure e)"
            by (simp add: memo_value_check_def)
          with d a' rc ac sel ob sc memo(1) Inr p e show ?thesis
            by (simp add: direct_checks_def direct_assembly_def respond_def)
        next
          case mm: (Inr mm)
          with force have mv: "memo_value_check rh r = None"
            by (simp add: memo_value_check_def)
          have run: "direct_assembly rh r a =
              assemble_and_submit rh r a ([Call_Resolve (destination r)] @ cs) ob mm"
            using d a' sel ob Inr p mm by (simp add: direct_assembly_def)
          have checks: "first_defect (direct_checks rh r) =
              first_defect [source_account_check rh r, sequence_check rh r, builder_check rh r,
                            encode_check rh r, submit_check rh r]"
            using rc ac sc mv memo(1) Inr by (simp add: direct_checks_def)
          from sel ob have sel': "select_operation rh (AccountId d) (asset_code r) (asset_issuer r)
              (amount r) = (cs, Inr ob)"
            by simp
          from assemble_checks_outcome [OF a d sel' force mm]
          show ?thesis unfolding run checks .
        qed
      qed
    qed
  qed
qed

lemma relay_checks_outcome:
  assumes "keypair_Parse rh (source r) = Some a" and "Compliance (Config rh) = Some url"
  shows "case first_defect (relay_checks rh r) of
           Some out \<Rightarrow> outcome (compliance_relay rh r a url) = out
         | None \<Rightarrow> (\<exists>resp. outcome (compliance_relay rh r a url) = Success resp)"
  using assms
  by (simp add: relay_checks_def compliance_answer_def transport_check_def body_check_def
      status_check_def envelope_check_def seed_check_def raw_submit_check_def
      compliance_relay_def respond_def Let_def split: option.splits)

subsection \<open>Memo types that the switch does not know\<close>

text \<open>
  C1 (as amended).  The handler has no error of its own for a memo type that it does not
  support: the default case of the switch writes \<^verbatim>\<open>h.PaymentInvalidMemo\<close>.  For every
  request that reaches the switch with a memo type other than the empty string,
  \<^verbatim>\<open>id\<close>, \<^verbatim>\<open>text\<close> and \<^verbatim>\<open>hash\<close>, the handler writes \<open>PaymentInvalidMemo\<close>, which is
  the error of an \<^verbatim>\<open>id\<close> memo that does not parse, and builds no transaction.
\<close>

theorem unsupported_memo_type_is_PaymentInvalidMemo:
  assumes "reaches_memo_dispatch rh r d ob memoType mem"
    and "memoType \<noteq> []" and "memoType \<noteq> ''id''" and "memoType \<noteq> ''text''"
    and "memoType \<noteq> ''hash''"
  shows "outcome (Payment rh r) = Failure PaymentInvalidMemo \<and>
         built (Payment rh r) = None \<and>
         memo_dispatch memoType mem = memo_dispatch ''id'' []"
proof -
  from assms(1) have p: "reaches_memo_policy rh r d ob"
    and m: "memo_policy d (memo_type r) (memo r) = Inr (memoType, mem)"
    by (simp_all add: reaches_memo_dispatch_def)
  have u: "memo_dispatch memoType mem = Inl PaymentInvalidMemo"
    using assms(2-5) by (rule memo_dispatch_unsupported)
  from reaches_memo_policy_Payment [OF p] m u
  have "outcome (Payment rh r) = Failure PaymentInvalidMemo \<and> built (Payment rh r) = None"
    by (auto simp: respond_def)
  moreover have "memo_dispatch ''id'' [] = Inl PaymentInvalidMemo"
    by (simp add: memo_dispatch_def ParseUint_def)
  ultimately show ?thesis using u by simp
qed

theorem unsupported_memo_type_witness:
  "outcome (Payment example_handler (example_request\<lparr>memo_type := ''note'', memo := ''x''\<rparr>)) =
     Failure PaymentInvalidMemo"
  using unsupported_memo_type_is_PaymentInvalidMemo
    [of example_handler "example_request\<lparr>memo_type := ''note'', memo := ''x''\<rparr>"
        "\<lparr>AccountId = ''GC'', MemoType = None, Memo = None\<rparr>"
        "b_Payment ''GC'' (NativeAmount ''10'')" "''note''" "''x''"]
  by (simp add: reaches_memo_dispatch_def reaches_memo_policy_def relayed_def example_defs
      select_operation_def memo_policy_def)

text \<open>The request with the memo type \<^verbatim>\<open>note\<close> gets the answer of the request with an
  \<^verbatim>\<open>id\<close> memo that is not a number: the two errors are one.\<close>

theorem unsupported_memo_type_counterexample:
  "outcome (Payment example_handler (example_request\<lparr>memo_type := ''note'', memo := ''x''\<rparr>)) =
     outcome (Payment example_handler (example_request\<lparr>memo_type := ''id'', memo := ''x''\<rparr>)) \<and>
   outcome (Payment example_handler (example_request\<lparr>memo_type := ''note'', memo := ''x''\<rparr>)) =
     Failure PaymentInvalidMemo"
  by (simp add: example_defs handler_defs ParseUint_def digit_val_def)

subsection \<open>A missing asset parameter\<close>

text \<open>
  C2 (as amended).  Only the branch without the compliance server looks at the pair of
  asset parameters.  For every request whose source parses and which does not go to the
  compliance server, with exactly one of \<^verbatim>\<open>asset_code\<close> and \<^verbatim>\<open>asset_issuer\<close>
  non-empty: the only call made is the federation lookup (no account is loaded and
  nothing is submitted), no transaction is built, and the error written is
  \<open>PaymentMissingParamAsset\<close> when the destination resolves to an account id that
  parses, else the error of the destination.
\<close>

theorem missing_asset_parameter_direct:
  assumes "(asset_code r = []) \<noteq> (asset_issuer r = [])"
    and "keypair_Parse rh (source r) = Some a" and "\<not> relayed rh r"
  shows "calls (Payment rh r) = [Call_Resolve (destination r)] \<and>
         built (Payment rh r) = None \<and>
         outcome (Payment rh r) =
           (case federation_Resolve rh (destination r) of
              None \<Rightarrow> Failure PaymentCannotResolveDestination
            | Some d \<Rightarrow>
                (case keypair_Parse rh (AccountId d) of
                   None \<Rightarrow> Failure PaymentInvalidDestination
                 | Some _ \<Rightarrow> Failure PaymentMissingParamAsset))"
proof -
  have "Payment rh r = direct_assembly rh r a"
    using assms(2,3) by (rule Payment_direct)
  then show ?thesis
    using select_operation_one_missing [OF assms(1)]
    by (simp add: direct_assembly_def respond_def Let_def split: option.splits)
qed

theorem missing_asset_parameter_witness:
  "calls (Payment example_handler (example_request\<lparr>asset_code := ''USD''\<rparr>)) =
     [Call_Resolve ''GC''] \<and>
   built (Payment example_handler (example_request\<lparr>asset_code := ''USD''\<rparr>)) = None \<and>
   outcome (Payment example_handler (example_request\<lparr>asset_code := ''USD''\<rparr>)) =
     Failure PaymentMissingParamAsset"
  using missing_asset_parameter_direct
    [of "example_request\<lparr>asset_code := ''USD''\<rparr>" example_handler "''GA''"]
  by (simp add: example_defs relayed_def)

text \<open>With \<^verbatim>\<open>extra_memo\<close> set and a compliance server configured, the same asset
  parameters are forwarded unchecked and the transaction of the compliance server is
  signed and submitted.\<close>

theorem missing_asset_parameter_counterexample:
  "outcome (Payment example_handler (example_request\<lparr>asset_code := ''USD'', extra_memo := ''x''\<rparr>)) = Success ''submitted'' \<and>
   calls (Payment example_handler (example_request\<lparr>asset_code := ''USD'', extra_memo := ''x''\<rparr>)) =
     [Call_PostForm ''http://compliance/send''
        [(''source'', ''GA''), (''sender'', []), (''destination'', ''GC''), (''amount'', ''10''),
         (''asset_code'', ''USD''), (''asset_issuer'', []), (''extra_memo'', ''x'')],
      Call_SignAndSubmitRawTransaction ''SI'' ''tx'']"
  by (simp add: example_defs handler_defs compliance_form_def)


subsection \<open>Payments of the native asset to an account that does not exist\<close>

text \<open>
  C3.  For every request with \<^verbatim>\<open>asset_code\<close> and \<^verbatim>\<open>asset_issuer\<close> both empty whose
  destination resolves to an account that \<^verbatim>\<open>LoadAccount\<close> does not find (any error
  of \<^verbatim>\<open>LoadAccount\<close> counts): whenever \<^verbatim>\<open>operationBuilder\<close> is set, it is
  \<^verbatim>\<open>b.CreateAccount\<close> of the destination with the native amount; the operation of any
  transaction built is that one; and in the branch without the compliance server, with
  an account id that parses, \<^verbatim>\<open>operationBuilder\<close> is set.
\<close>

theorem missing_destination_account_is_created:
  assumes "asset_code r = []" and "asset_issuer r = []"
    and "federation_Resolve rh (destination r) = Some d"
    and "LoadAccount rh (AccountId d) = None"
  shows "(\<forall>ob. operationBuilder (Payment rh r) = Some ob \<longrightarrow>
            ob = b_CreateAccount (AccountId d) (NativeAmount (amount r))) \<and>
         (\<forall>t. built (Payment rh r) = Some t \<longrightarrow>
            Operation t = b_CreateAccount (AccountId d) (NativeAmount (amount r))) \<and>
         (keypair_Parse rh (source r) \<noteq> None \<and> \<not> relayed rh r \<and> keypair_Parse rh (AccountId d) \<noteq> None \<longrightarrow>
            operationBuilder (Payment rh r) = Some (b_CreateAccount (AccountId d) (NativeAmount (amount r))))"
proof -
  let ?ca = "b_CreateAccount (AccountId d) (NativeAmount (amount r))"
  have sel: "select_operation rh (AccountId d) (asset_code r) (asset_issuer r) (amount r) =
      ([Call_LoadAccount (AccountId d)], Inr ?ca)"
    using assms(1,2,4) by (simp add: select_operation_def)
  note da = direct_assembly_operation [OF assms(3) sel]
  from Payment_cases [of rh r] show ?thesis
  proof (elim disjE exE conjE)
    assume "keypair_Parse rh (source r) = None"
      "Payment rh r = respond [] None (Failure PaymentInvalidSource)"
    then show ?thesis by (simp add: respond_def)
  next
    fix a url assume "relayed rh r" "Payment rh r = compliance_relay rh r a url"
    then show ?thesis
      using compliance_relay_no_operation [of rh r a url] by simp
  next
    fix a assume "keypair_Parse rh (source r) = Some a" "\<not> relayed rh r" "Payment rh r = direct_assembly rh r a"
    then show ?thesis using da [of a] by (auto split: if_splits)
  qed
qed

theorem missing_destination_account_witness:
  "operationBuilder (Payment example_handler (example_request\<lparr>destination := ''GB''\<rparr>)) =
     Some (b_CreateAccount ''GB'' (NativeAmount ''10''))"
proof -
  let ?r = "example_request\<lparr>destination := ''GB''\<rparr>"
  let ?d = "\<lparr>AccountId = ''GB'', MemoType = None, Memo = None\<rparr>"
  have 1: "asset_code ?r = []" and 2: "asset_issuer ?r = []"
    and 3: "federation_Resolve example_handler (destination ?r) = Some ?d"
    and 4: "LoadAccount example_handler (AccountId ?d) = None"
    and 5: "keypair_Parse example_handler (source ?r) \<noteq> None \<and> \<not> relayed example_handler ?r \<and>
            keypair_Parse example_handler (AccountId ?d) \<noteq> None"
    and 6: "AccountId ?d = ''GB''" "amount ?r = ''10''"
    by (simp_all add: example_defs relayed_def)
  from missing_destination_account_is_created [OF 1 2 3 4] 5
  have "operationBuilder (Payment example_handler ?r) =
      Some (b_CreateAccount (AccountId ?d) (NativeAmount (amount ?r)))"
    by blast
  then show ?thesis unfolding 6 .
qed

subsection \<open>A memo from federation and a memo in the request\<close>

text \<open>
  C4 (as amended).  For every request that reaches the memo checks (line 152) and whose
  destination comes with a memo type from federation:
  \<^item> if the request has both \<^verbatim>\<open>memo_type\<close> and \<^verbatim>\<open>memo\<close>, the handler writes
    \<open>PaymentCannotUseMemo\<close>;
  \<^item> if the request has exactly one of the two, the handler writes
    \<open>PaymentMissingParamMemo\<close> (the check of line 152 comes first);
  \<^item> if the request has neither, the memo of federation goes to the switch;
  \<^item> every transaction built has an empty memo in the request and carries the memo
    mutator that the switch makes of the memo of federation: the two are never combined.
\<close>

theorem federation_memo_excludes_request_memo:
  assumes "reaches_memo_policy rh r d ob" and "MemoType d = Some mt"
  shows "(memo_type r \<noteq> [] \<and> memo r \<noteq> [] \<longrightarrow>
            outcome (Payment rh r) = Failure PaymentCannotUseMemo \<and> built (Payment rh r) = None) \<and>
         ((memo_type r = []) \<noteq> (memo r = []) \<longrightarrow>
            outcome (Payment rh r) = Failure PaymentMissingParamMemo \<and> built (Payment rh r) = None) \<and>
         (memo_type r = [] \<and> memo r = [] \<longrightarrow>
            (\<forall>m. Memo d = Some m \<longrightarrow> reaches_memo_dispatch rh r d ob mt m)) \<and>
         (\<forall>t. built (Payment rh r) = Some t \<longrightarrow>
            memo_type r = [] \<and> memo r = [] \<and>
            (\<exists>m. Memo d = Some m \<and> memo_dispatch mt m = Inr (MemoMutator t)))"
proof -
  from reaches_memo_policy_Payment [OF assms(1)] obtain a cs where
    P: "Payment rh r =
       (case memo_policy d (memo_type r) (memo r) of
          Inl out \<Rightarrow> respond ([Call_Resolve (destination r)] @ cs) (Some ob) out
        | Inr (memoType, mem) \<Rightarrow>
            (case memo_dispatch memoType mem of
               Inl e \<Rightarrow> respond ([Call_Resolve (destination r)] @ cs) (Some ob) (Failure e)
             | Inr memoMutator \<Rightarrow>
                 assemble_and_submit rh r a ([Call_Resolve (destination r)] @ cs) ob memoMutator))"
    by blast
  have c1: "memo_type r \<noteq> [] \<and> memo r \<noteq> [] \<longrightarrow>
      outcome (Payment rh r) = Failure PaymentCannotUseMemo \<and> built (Payment rh r) = None"
    using assms(2) by (simp add: P memo_policy_def respond_def)
  have c2: "(memo_type r = []) \<noteq> (memo r = []) \<longrightarrow>
      outcome (Payment rh r) = Failure PaymentMissingParamMemo \<and> built (Payment rh r) = None"
    by (auto simp: P memo_policy_def respond_def)
  have c3: "memo_type r = [] \<and> memo r = [] \<longrightarrow>
      (\<forall>m. Memo d = Some m \<longrightarrow> reaches_memo_dispatch rh r d ob mt m)"
    using assms by (simp add: reaches_memo_dispatch_def memo_policy_def)
  have c4: "\<forall>t. built (Payment rh r) = Some t \<longrightarrow>
      memo_type r = [] \<and> memo r = [] \<and>
      (\<exists>m. Memo d = Some m \<and> memo_dispatch mt m = Inr (MemoMutator t))"
    using assms(2) assemble_and_submit_operation [of rh r a "[Call_Resolve (destination r)] @ cs" ob]
    by (auto simp: P memo_policy_def respond_def split: if_splits option.splits sum.splits)
  from c1 c2 c3 c4 show ?thesis by blast
qed

theorem federation_memo_witness:
  "outcome (Payment example_handler
      (example_request\<lparr>destination := ''bob*example.com'', memo_type := ''text'', memo := ''hi''\<rparr>)) =
     Failure PaymentCannotUseMemo"
  using federation_memo_excludes_request_memo
    [of example_handler
        "example_request\<lparr>destination := ''bob*example.com'', memo_type := ''text'', memo := ''hi''\<rparr>"
        "\<lparr>AccountId = ''GC'', MemoType = Some ''id'', Memo = Some ''7''\<rparr>"
        "b_Payment ''GC'' (NativeAmount ''10'')" "''id''"]
  by (simp add: reaches_memo_policy_def relayed_def example_defs select_operation_def)

text \<open>A request with a memo type but no memo value, to a destination with a memo from
  federation, gets \<open>PaymentMissingParamMemo\<close>.\<close>

theorem federation_memo_counterexample:
  "outcome (Payment example_handler
      (example_request\<lparr>destination := ''bob*example.com'', memo_type := ''id''\<rparr>)) =
     Failure PaymentMissingParamMemo"
  by (simp add: example_defs handler_defs)

subsection \<open>The branch of the compliance server\<close>

text \<open>
  C8.  For every request that goes to the compliance server (the source parses,
  \<^verbatim>\<open>extra_memo\<close> is non-empty and a compliance server is configured): when the
  compliance server fails (transport error, status other than 200, unreadable body or a
  body that does not decode to a transaction), the handler writes \<open>ServerError\<close>, the
  request has been posted exactly once, and nothing else has been called: no federation
  lookup, no account load, no submission; no operation has been chosen and no
  transaction built.
\<close>

theorem compliance_failure_is_ServerError:
  assumes "keypair_Parse rh (source r) = Some a"
    and "extra_memo r \<noteq> []" and "Compliance (Config rh) = Some url"
    and "compliance_failure rh r a url"
  shows "Payment rh r =
           \<lparr>calls = [Call_PostForm (url @ ''/send'') (compliance_form r a)],
            operationBuilder = None, built = None, outcome = Failure ServerError\<rparr>"
proof -
  have "Payment rh r = compliance_relay rh r a url"
    using assms(1-3) by (rule Payment_relayed)
  then show ?thesis
    using assms(4)
    by (auto simp: compliance_failure_def compliance_relay_def respond_def Let_def
        split: option.splits)
qed

theorem compliance_failure_witness:
  "Payment (example_handler\<lparr>http_PostForm := \<lambda>url form. Some \<lparr>StatusCode = 500, Body = Some ''error''\<rparr>\<rparr>)
      (example_request\<lparr>extra_memo := ''x''\<rparr>) =
     \<lparr>calls = [Call_PostForm ''http://compliance/send''
         (compliance_form (example_request\<lparr>extra_memo := ''x''\<rparr>) ''GA'')],
      operationBuilder = None, built = None, outcome = Failure ServerError\<rparr>"
  using compliance_failure_is_ServerError
    [of "example_handler\<lparr>http_PostForm := \<lambda>url form. Some \<lparr>StatusCode = 500, Body = Some ''error''\<rparr>\<rparr>"
        "example_request\<lparr>extra_memo := ''x''\<rparr>" "''GA''" "''http://compliance''"]
  by (simp add: example_defs compliance_failure_def)

subsection \<open>Payments of a credit asset\<close>

text \<open>
  C10.  For every request with \<^verbatim>\<open>asset_code\<close> and \<^verbatim>\<open>asset_issuer\<close> both non-empty:
  the operation chosen, and the operation of any transaction built, is \<^verbatim>\<open>b.Payment\<close>;
  the choice of the operation makes no call; and the only account the run may load is
  the source account, at most once.  For every request, \<^verbatim>\<open>b.CreateAccount\<close> is chosen
  only when both asset parameters are empty.
\<close>

theorem credit_payment_never_probes_destination:
  "(asset_code r \<noteq> [] \<and> asset_issuer r \<noteq> [] \<longrightarrow>
      (\<forall>ob. operationBuilder (Payment rh r) = Some ob \<longrightarrow> is_Payment ob) \<and>
      (\<forall>t. built (Payment rh r) = Some t \<longrightarrow> is_Payment (Operation t)) \<and>
      (\<forall>accountId amnt.
         fst (select_operation rh accountId (asset_code r) (asset_issuer r) amnt) = []) \<and>
      (\<forall>a. keypair_Parse rh (source r) = Some a \<longrightarrow>
         filter is_LoadAccount (calls (Payment rh r)) = [] \<or>
         filter is_LoadAccount (calls (Payment rh r)) = [Call_LoadAccount a])) \<and>
   (\<forall>ob. operationBuilder (Payment rh r) = Some ob \<and> is_CreateAccount ob \<longrightarrow>
      asset_code r = [] \<and> asset_issuer r = [])"
proof -
  have sel: "\<forall>ob. operationBuilder (Payment rh r) = Some ob \<longrightarrow>
      (\<exists>d::destinationObject.
         snd (select_operation rh (AccountId d) (asset_code r) (asset_issuer r) (amount r)) = Inr ob)"
  proof (intro allI impI)
    fix ob assume ob: "operationBuilder (Payment rh r) = Some ob"
    from Payment_cases [of rh r] ob obtain a where "operationBuilder (direct_assembly rh r a) = Some ob"
      using compliance_relay_no_operation [of rh r] by (auto simp: respond_def)
    from direct_assembly_operation_selected [OF this]
    show "\<exists>d::destinationObject.
        snd (select_operation rh (AccountId d) (asset_code r) (asset_issuer r) (amount r)) = Inr ob"
      by blast
  qed
  have bo: "\<forall>t. built (Payment rh r) = Some t \<longrightarrow> operationBuilder (Payment rh r) = Some (Operation t)"
    using Payment_cases [of rh r] compliance_relay_no_operation [of rh r]
      direct_assembly_built_operation [of rh r]
    by (auto simp: respond_def)
  have ca: "\<forall>ob. operationBuilder (Payment rh r) = Some ob \<and> is_CreateAccount ob \<longrightarrow>
      asset_code r = [] \<and> asset_issuer r = []"
    using sel select_operation_CreateAccount by blast
  have credit: "asset_code r \<noteq> [] \<and> asset_issuer r \<noteq> [] \<longrightarrow>
      (\<forall>ob. operationBuilder (Payment rh r) = Some ob \<longrightarrow> is_Payment ob)"
    using sel select_operation_credit by blast
  have loads: "asset_code r \<noteq> [] \<and> asset_issuer r \<noteq> [] \<longrightarrow>
      (\<forall>a. keypair_Parse rh (source r) = Some a \<longrightarrow>
         filter is_LoadAccount (calls (Payment rh r)) = [] \<or>
         filter is_LoadAccount (calls (Payment rh r)) = [Call_LoadAccount a])"
  proof (intro impI allI)
    fix a assume c: "asset_code r \<noteq> [] \<and> asset_issuer r \<noteq> []"
      and a: "keypair_Parse rh (source r) = Some a"
    have s: "fst (select_operation rh accountId (asset_code r) (asset_issuer r) (amount r)) = []"
      for accountId
      using c by (simp add: select_operation_calls)
    from Payment_cases [of rh r] a consider
      (relay) url where "Payment rh r = compliance_relay rh r a url"
      | (direct) "Payment rh r = direct_assembly rh r a"
      by auto
    then show "filter is_LoadAccount (calls (Payment rh r)) = [] \<or>
        filter is_LoadAccount (calls (Payment rh r)) = [Call_LoadAccount a]"
    proof cases
      case relay
      then show ?thesis using compliance_relay_loads [of rh r a url] by simp
    next
      case direct
      then show ?thesis using direct_assembly_loads [of rh r a] s by auto
    qed
  qed
  have probe: "asset_code r \<noteq> [] \<and> asset_issuer r \<noteq> [] \<longrightarrow>
      (\<forall>accountId amnt. fst (select_operation rh accountId (asset_code r) (asset_issuer r) amnt) = [])"
    by (simp add: select_operation_calls)
  from credit bo ca loads probe show ?thesis by metis
qed

theorem credit_payment_witness:
  "is_Payment (the (operationBuilder (Payment example_handler
      (example_request\<lparr>asset_code := ''USD'', asset_issuer := ''GA''\<rparr>)))) \<and>
   filter is_LoadAccount (calls (Payment example_handler
      (example_request\<lparr>asset_code := ''USD'', asset_issuer := ''GA''\<rparr>))) = [Call_LoadAccount ''GA'']"
proof -
  let ?r = "example_request\<lparr>asset_code := ''USD'', asset_issuer := ''GA''\<rparr>"
  have 1: "asset_code ?r \<noteq> [] \<and> asset_issuer ?r \<noteq> []" by (simp add: example_defs)
  have 2: "operationBuilder (Payment example_handler ?r) =
      Some (b_Payment ''GC'' (CreditAmount ''USD'' ''GA'' ''10''))"
    by (simp add: example_defs handler_defs ParseUint_def digit_val_def)
  have 3: "filter is_LoadAccount (calls (Payment example_handler ?r)) \<noteq> []"
    by (simp add: example_defs handler_defs ParseUint_def digit_val_def)
  have 4: "keypair_Parse example_handler (source ?r) = Some ''GA''" by (simp add: example_defs)
  from credit_payment_never_probes_destination [of ?r example_handler] 1 2 3 4
  show ?thesis by (metis option.sel)
qed

subsection \<open>Memos of type hash\<close>

text \<open>
  C5 (as amended).  For every request that reaches the switch with the memo type
  \<^verbatim>\<open>hash\<close> (the memo of the request or the one of federation): if the memo value
  is 64 hexadecimal digits, it decodes to 32 bytes, byte \<open>i\<close> being made of the digits
  \<open>2i\<close> and \<open>2i + 1\<close>, every transaction built carries these bytes as its memo, and
  the handler does not write \<open>PaymentInvalidMemo\<close>; a memo value of any other length
  or with any other character makes the handler write \<open>PaymentInvalidMemo\<close>, and no
  transaction is built.
\<close>

theorem hash_memo_decoding:
  assumes "reaches_memo_dispatch rh r d ob ''hash'' mem"
  shows "(length mem = 64 \<and> is_hex mem \<longrightarrow>
            (\<exists>bs. DecodeString mem = Some bs \<and> length bs = 32 \<and>
               (\<forall>i<32. bs ! i =
                  of_nat (the (fromHexChar (mem ! (2 * i))) * 16 +
                          the (fromHexChar (mem ! (2 * i + 1))))) \<and>
               memo_dispatch ''hash'' mem = Inr (Some (MemoHash bs)) \<and>
               (\<forall>t. built (Payment rh r) = Some t \<longrightarrow> MemoMutator t = Some (MemoHash bs))) \<and>
            outcome (Payment rh r) \<noteq> Failure PaymentInvalidMemo) \<and>
         (\<not> (length mem = 64 \<and> is_hex mem) \<longrightarrow>
            outcome (Payment rh r) = Failure PaymentInvalidMemo \<and> built (Payment rh r) = None)"
proof -
  from assms have p: "reaches_memo_policy rh r d ob"
    and m: "memo_policy d (memo_type r) (memo r) = Inr (''hash'', mem)"
    by (simp_all add: reaches_memo_dispatch_def)
  from reaches_memo_policy_Payment [OF p] m obtain a cs where
    P: "Payment rh r =
       (case memo_dispatch ''hash'' mem of
          Inl e \<Rightarrow> respond ([Call_Resolve (destination r)] @ cs) (Some ob) (Failure e)
        | Inr memoMutator \<Rightarrow>
            assemble_and_submit rh r a ([Call_Resolve (destination r)] @ cs) ob memoMutator)"
    by auto
  show ?thesis
  proof (cases "length mem = 64 \<and> is_hex mem")
    case False
    then have "memo_dispatch ''hash'' mem = Inl PaymentInvalidMemo"
      by (simp add: memo_dispatch_hash)
    with False show ?thesis by (simp add: P respond_def)
  next
    case True
    with DecodeString_Some_iff [of mem] obtain bs where bs: "DecodeString mem = Some bs" by auto
    from DecodeString_length [OF bs] True have len: "length bs = 32" by simp
    have nth: "\<forall>i<32. bs ! i =
        of_nat (the (fromHexChar (mem ! (2 * i))) * 16 + the (fromHexChar (mem ! (2 * i + 1))))"
      using DecodeString_nth [OF bs] len by simp
    have dis: "memo_dispatch ''hash'' mem = Inr (Some (MemoHash bs))"
      using True bs by (simp add: memo_dispatch_hash)
    have run: "Payment rh r =
        assemble_and_submit rh r a ([Call_Resolve (destination r)] @ cs) ob (Some (MemoHash bs))"
      by (simp add: P dis)
    have b: "\<forall>t. built (Payment rh r) = Some t \<longrightarrow> MemoMutator t = Some (MemoHash bs)"
      using assemble_and_submit_operation
        [of rh r a "[Call_Resolve (destination r)] @ cs" ob "Some (MemoHash bs)"]
      by (simp add: run)
    have o: "outcome (Payment rh r) \<noteq> Failure PaymentInvalidMemo"
      by (simp add: run assemble_and_submit_outcome)
    from True bs len nth dis b o show ?thesis by blast
  qed
qed

theorem hash_memo_witness:
  "map_option MemoMutator (built (Payment example_handler
      (example_request\<lparr>memo_type := ''hash'', memo := example_hash\<rparr>))) =
     Some (Some (MemoHash
       [0, 17, 34, 51, 68, 85, 102, 119, 136, 153, 170, 187, 204, 221, 238, 255,
        0, 17, 34, 51, 68, 85, 102, 119, 136, 153, 170, 187, 204, 221, 238, 255])) \<and>
   outcome (Payment example_handler (example_request\<lparr>memo_type := ''hash'', memo := ''abc''\<rparr>)) =
     Failure PaymentInvalidMemo"
proof -
  let ?d = "\<lparr>AccountId = ''GC'', MemoType = None, Memo = None\<rparr>"
  let ?ob = "b_Payment ''GC'' (NativeAmount ''10'')"
  let ?r = "example_request\<lparr>memo_type := ''hash'', memo := example_hash\<rparr>"
  let ?r' = "example_request\<lparr>memo_type := ''hash'', memo := ''abc''\<rparr>"
  have 1: "reaches_memo_dispatch example_handler ?r ?d ?ob ''hash'' example_hash"
    by (simp add: reaches_memo_dispatch_def reaches_memo_policy_def relayed_def example_defs
        select_operation_def memo_policy_def example_hash_def)
  have 2: "reaches_memo_dispatch example_handler ?r' ?d ?ob ''hash'' ''abc''"
    by (simp add: reaches_memo_dispatch_def reaches_memo_policy_def relayed_def example_defs
        select_operation_def memo_policy_def)
  have 3: "length example_hash = 64 \<and> is_hex example_hash"
    by (simp add: example_hash_def is_hex_def fromHexChar_def)
  have 4: "\<not> (length ''abc'' = 64 \<and> is_hex ''abc'')" by simp
  have 5: "DecodeString example_hash = Some
       [0, 17, 34, 51, 68, 85, 102, 119, 136, 153, 170, 187, 204, 221, 238, 255,
        0, 17, 34, 51, 68, 85, 102, 119, 136, 153, 170, 187, 204, 221, 238, 255]"
    by (simp add: example_hash_def fromHexChar_def)
  have 7: "example_hash \<noteq> []" by (simp add: example_hash_def)
  have 8: "memo_dispatch ''hash'' example_hash = Inr (Some (MemoHash
       [0, 17, 34, 51, 68, 85, 102, 119, 136, 153, 170, 187, 204, 221, 238, 255,
        0, 17, 34, 51, 68, 85, 102, 119, 136, 153, 170, 187, 204, 221, 238, 255]))"
    by (simp add: memo_dispatch_def 5)
  have 6: "built (Payment example_handler ?r) \<noteq> None"
    using 7
    by (simp add: example_defs Payment_def direct_assembly_def select_operation_def
        memo_policy_def assemble_and_submit_def respond_def ParseUint_def digit_val_def 8)
  from hash_memo_decoding [OF 1] 3 5 6
  have "map_option MemoMutator (built (Payment example_handler ?r)) =
     Some (Some (MemoHash
       [0, 17, 34, 51, 68, 85, 102, 119, 136, 153, 170, 187, 204, 221, 238, 255,
        0, 17, 34, 51, 68, 85, 102, 119, 136, 153, 170, 187, 204, 221, 238, 255]))"
    by auto
  moreover from hash_memo_decoding [OF 2] 4
  have "outcome (Payment example_handler ?r') = Failure PaymentInvalidMemo" by blast
  ultimately show ?thesis by blast
qed

text \<open>On the branch of the compliance server the memo of the request is never looked
  at, and a memo type without a memo value is stopped by the check of line 152.\<close>

theorem hash_memo_counterexample:
  "outcome (Payment example_handler
      (example_request\<lparr>memo_type := ''hash'', memo := ''abcd'', extra_memo := ''x''\<rparr>)) =
     Success ''submitted'' \<and>
   outcome (Payment example_handler (example_request\<lparr>memo_type := ''hash''\<rparr>)) =
     Failure PaymentMissingParamMemo"
  by (simp add: example_defs handler_defs)

subsection \<open>The sequence number\<close>

text \<open>
  C7 (as amended).  For every request for which a transaction is built: the sequence
  number of the transaction is the parsed \<^verbatim>\<open>SequenceNumber\<close> of the source account
  plus one in \<^verbatim>\<open>uint64\<close>, that is plus one modulo \<open>2 ^ 64\<close>: it is the successor
  unless the parsed number is \<open>2 ^ 64 - 1\<close>, where it is 0.  The source account is
  loaded by the last call of \<^verbatim>\<open>LoadAccount\<close> of the run; the only other call of
  \<^verbatim>\<open>LoadAccount\<close> is the one that looks for the destination account when both asset
  parameters are empty.  What is submitted is the signed encoding of the transaction
  built, with that sequence number.
\<close>

theorem sequence_number_is_snapshot_plus_one_mod:
  assumes "keypair_Parse rh (source r) = Some a" and "built (Payment rh r) = Some t"
  shows "\<exists>d s n.
           federation_Resolve rh (destination r) = Some d \<and>
           LoadAccount rh a = Some s \<and> ParseUint s = Some n \<and>
           Sequence t = n + 1 \<and>
           unat (Sequence t) = (unat n + 1) mod 2 ^ 64 \<and>
           (unat n < 2 ^ 64 - 1 \<longrightarrow> unat (Sequence t) = unat n + 1) \<and>
           (unat n = 2 ^ 64 - 1 \<longrightarrow> Sequence t = 0) \<and>
           filter is_LoadAccount (calls (Payment rh r)) =
             (if asset_code r = [] \<and> asset_issuer r = [] then [Call_LoadAccount (AccountId d)]
              else []) @ [Call_LoadAccount a] \<and>
           (\<forall>b. Call_SubmitTransaction b \<in> set (calls (Payment rh r)) \<longrightarrow>
              Sign_Base64 rh (source r) t = Some b)"
proof -
  have P: "Payment rh r = direct_assembly rh r a"
    using assms by (rule Payment_built_direct)
  with assms(2) have b: "built (direct_assembly rh r a) = Some t" by simp
  from direct_assembly_built [OF b] obtain d cs ob where
    d: "federation_Resolve rh (destination r) = Some d"
    and sel: "select_operation rh (AccountId d) (asset_code r) (asset_issuer r) (amount r) = (cs, Inr ob)"
    and D: "direct_assembly rh r a =
       assemble_and_submit rh r a ([Call_Resolve (destination r)] @ cs) ob (MemoMutator t)"
    by blast
  from b D have "built (assemble_and_submit rh r a ([Call_Resolve (destination r)] @ cs) ob (MemoMutator t)) = Some t"
    by simp
  from assemble_and_submit_built [OF this] obtain s n where
    s: "LoadAccount rh a = Some s" and n: "ParseUint s = Some n"
    and t: "t = \<lparr>SourceAccount = source r, Sequence = n + 1, Network = NetworkPassphrase (Config rh),
          Operation = ob, MemoMutator = MemoMutator t\<rparr>"
    and c: "calls (assemble_and_submit rh r a ([Call_Resolve (destination r)] @ cs) ob (MemoMutator t)) =
       ([Call_Resolve (destination r)] @ cs) @ [Call_LoadAccount a] @
       (case Transaction_Err rh t of
          Some _ \<Rightarrow> []
        | None \<Rightarrow> (case Sign_Base64 rh (source r) t of
                     None \<Rightarrow> []
                   | Some txeB64 \<Rightarrow> [Call_SubmitTransaction txeB64]))"
    by blast
  have seq: "Sequence t = n + 1" by (subst t) simp
  have u: "unat (Sequence t) = (unat n + 1) mod 2 ^ 64"
    by (simp add: seq unat_word_ariths)
  have lt: "unat n < 2 ^ 64 - 1 \<longrightarrow> unat (Sequence t) = unat n + 1"
    by (simp add: u)
  have mx: "unat n = 2 ^ 64 - 1 \<longrightarrow> Sequence t = 0"
  proof
    assume "unat n = 2 ^ 64 - 1"
    then have "unat (Sequence t) = 0" by (simp add: u)
    then show "Sequence t = 0" by (simp add: unat_eq_0)
  qed
  have cs: "cs = (if asset_code r = [] \<and> asset_issuer r = [] then [Call_LoadAccount (AccountId d)] else [])"
    using select_operation_calls [of rh "AccountId d" "asset_code r" "asset_issuer r" "amount r"] sel
    by simp
  have calls: "calls (Payment rh r) =
       ([Call_Resolve (destination r)] @ cs) @ [Call_LoadAccount a] @
       (case Transaction_Err rh t of
          Some _ \<Rightarrow> []
        | None \<Rightarrow> (case Sign_Base64 rh (source r) t of
                     None \<Rightarrow> []
                   | Some txeB64 \<Rightarrow> [Call_SubmitTransaction txeB64]))"
    using P D c by simp
  have loads: "filter is_LoadAccount (calls (Payment rh r)) =
       (if asset_code r = [] \<and> asset_issuer r = [] then [Call_LoadAccount (AccountId d)]
        else []) @ [Call_LoadAccount a]"
    by (simp add: calls cs split: option.splits)
  have sub: "\<forall>b. Call_SubmitTransaction b \<in> set (calls (Payment rh r)) \<longrightarrow>
      Sign_Base64 rh (source r) t = Some b"
    by (auto simp: calls cs split: option.splits if_splits)
  from d s n seq u lt mx loads sub show ?thesis by blast
qed

theorem sequence_number_witness:
  "map_option Sequence (built (Payment example_handler example_request)) = Some 42 \<and>
   filter is_LoadAccount (calls (Payment example_handler example_request)) =
     [Call_LoadAccount ''GC'', Call_LoadAccount ''GA'']"
proof -
  have 1: "keypair_Parse example_handler (source example_request) = Some ''GA''"
    by (simp add: example_defs)
  obtain t where 2: "built (Payment example_handler example_request) = Some t"
    by (simp add: example_defs handler_defs ParseUint_def digit_val_def)
  have 3: "federation_Resolve example_handler (destination example_request) =
      Some \<lparr>AccountId = ''GC'', MemoType = None, Memo = None\<rparr>"
    and 4: "LoadAccount example_handler ''GA'' = Some ''41''"
    and 5: "ParseUint ''41'' = Some 41"
    and 6: "asset_code example_request = [] \<and> asset_issuer example_request = []"
    by (simp_all add: example_defs ParseUint_def digit_val_def)
  from sequence_number_is_snapshot_plus_one_mod [OF 1 2] 3 4 5 6
  have "Sequence t = 42 \<and>
    filter is_LoadAccount (calls (Payment example_handler example_request)) =
     [Call_LoadAccount ''GC'', Call_LoadAccount ''GA'']"
    by auto
  with 2 show ?thesis by simp
qed

text \<open>The account \<^verbatim>\<open>GMAX\<close> has the sequence number \<open>2 ^ 64 - 1\<close>; the transaction
  built for it has the sequence number 0.\<close>

theorem sequence_number_counterexample:
  "LoadAccount example_handler ''GMAX'' = Some ''18446744073709551615'' \<and>
   map_option (unat \<circ> Sequence)
     (built (Payment example_handler (example_request\<lparr>source := ''SMAX''\<rparr>))) = Some 0"
  by (simp add: example_defs handler_defs ParseUint_def digit_val_def)

subsection \<open>Validation of the memo of federation\<close>

text \<open>
  C9.  For every request on the branch without the compliance server whose destination
  comes with a memo type and a memo value from federation, and which has no memo of its
  own: the memo of federation goes through the same switch as a memo of the request
  (a run that reaches the memo checks reaches the switch with the type and the value of
  federation).  When the type is not supported, or the type is \<^verbatim>\<open>id\<close> and the
  value does not parse, or the type is \<^verbatim>\<open>hash\<close> and the value does not decode to
  32 bytes, the request fails and no transaction is built, and a run that reaches the
  memo checks writes \<open>PaymentInvalidMemo\<close>, the error of the switch.  Every
  transaction built carries the memo mutator that the switch makes of the memo of
  federation: the memo is never attached unvalidated.
\<close>

theorem federation_memo_is_validated:
  assumes "keypair_Parse rh (source r) = Some a" and "\<not> relayed rh r"
    and "federation_Resolve rh (destination r) = Some d"
    and "MemoType d = Some mt" and "Memo d = Some m"
    and "memo_type r = []" and "memo r = []"
  shows "((mt \<noteq> [] \<and> mt \<noteq> ''id'' \<and> mt \<noteq> ''text'' \<and> mt \<noteq> ''hash'') \<or>
          (mt = ''id'' \<and> ParseUint m = None) \<or>
          (mt = ''hash'' \<and> (case DecodeString m of None \<Rightarrow> True | Some bs \<Rightarrow> length bs \<noteq> 32))
          \<longrightarrow>
            (\<exists>e. outcome (Payment rh r) = Failure e) \<and> built (Payment rh r) = None \<and>
            (\<forall>ob. reaches_memo_policy rh r d ob \<longrightarrow>
               outcome (Payment rh r) = Failure PaymentInvalidMemo)) \<and>
         (\<forall>ob. reaches_memo_policy rh r d ob \<longrightarrow> reaches_memo_dispatch rh r d ob mt m) \<and>
         (\<forall>t. built (Payment rh r) = Some t \<longrightarrow> memo_dispatch mt m = Inr (MemoMutator t))"
proof -
  have P: "Payment rh r = direct_assembly rh r a"
    using assms(1,2) by (rule Payment_direct)
  have pol: "memo_policy d (memo_type r) (memo r) = Inr (mt, m)"
    using assms(4-7) by (simp add: memo_policy_def)
  have reach: "\<forall>ob. reaches_memo_policy rh r d ob \<longrightarrow> reaches_memo_dispatch rh r d ob mt m"
    using pol by (simp add: reaches_memo_dispatch_def)
  have built: "\<forall>t. built (Payment rh r) = Some t \<longrightarrow> memo_dispatch mt m = Inr (MemoMutator t)"
  proof (intro allI impI)
    fix t assume "built (Payment rh r) = Some t"
    with P have "built (direct_assembly rh r a) = Some t" by simp
    from direct_assembly_built [OF this] assms(3) pol
    show "memo_dispatch mt m = Inr (MemoMutator t)" by auto
  qed
  have bad: "(\<exists>e. outcome (Payment rh r) = Failure e) \<and> built (Payment rh r) = None \<and>
      (\<forall>ob. reaches_memo_policy rh r d ob \<longrightarrow> outcome (Payment rh r) = Failure PaymentInvalidMemo)"
    if dis: "memo_dispatch mt m = Inl PaymentInvalidMemo"
  proof -
    have b: "built (Payment rh r) = None"
    proof (cases "built (Payment rh r)")
      case (Some t)
      with built dis show ?thesis by simp
    qed simp
    have f: "\<exists>e. outcome (Payment rh r) = Failure e"
      using assms(3) pol dis
      by (auto simp: P direct_assembly_def respond_def Let_def split: option.splits sum.splits prod.splits)
    have i: "\<forall>ob. reaches_memo_policy rh r d ob \<longrightarrow> outcome (Payment rh r) = Failure PaymentInvalidMemo"
    proof (intro allI impI)
      fix ob assume "reaches_memo_policy rh r d ob"
      from reaches_memo_policy_Payment [OF this] pol dis
      show "outcome (Payment rh r) = Failure PaymentInvalidMemo"
        by (auto simp: respond_def)
    qed
    from b f i show ?thesis by blast
  qed
  have "memo_dispatch mt m = Inl PaymentInvalidMemo"
    if "(mt \<noteq> [] \<and> mt \<noteq> ''id'' \<and> mt \<noteq> ''text'' \<and> mt \<noteq> ''hash'') \<or>
          (mt = ''id'' \<and> ParseUint m = None) \<or>
          (mt = ''hash'' \<and> (case DecodeString m of None \<Rightarrow> True | Some bs \<Rightarrow> length bs \<noteq> 32))"
    using that by (auto simp: memo_dispatch_def split: option.splits)
  with bad reach built show ?thesis by blast
qed

theorem federation_memo_validated_witness:
  "outcome (Payment example_handler (example_request\<lparr>destination := ''dave*example.com''\<rparr>)) =
     Failure PaymentInvalidMemo"
proof -
  let ?r = "example_request\<lparr>destination := ''dave*example.com''\<rparr>"
  let ?d = "\<lparr>AccountId = ''GC'', MemoType = Some ''id'', Memo = Some ''seven''\<rparr>"
  have 1: "keypair_Parse example_handler (source ?r) = Some ''GA''"
    and 2: "\<not> relayed example_handler ?r"
    and 3: "federation_Resolve example_handler (destination ?r) = Some ?d"
    and 4: "MemoType ?d = Some ''id''" and 5: "Memo ?d = Some ''seven''"
    and 6: "memo_type ?r = []" and 7: "memo ?r = []"
    and 8: "ParseUint ''seven'' = None"
    and 9: "reaches_memo_policy example_handler ?r ?d (b_Payment ''GC'' (NativeAmount ''10''))"
    by (simp_all add: example_defs relayed_def ParseUint_def digit_val_def reaches_memo_policy_def
        select_operation_def)
  from federation_memo_is_validated [OF 1 2 3 4 5 6 7] 8 9 show ?thesis by blast
qed

subsection \<open>The order of the errors\<close>

text \<open>
  C6.  A request whose source does not parse gets \<open>PaymentInvalidSource\<close>, whatever
  else is wrong with it and whichever branch it would take, and no call is made.  In
  general, with the checks of all stages evaluated on their own and listed in the order
  of the pipeline, the outcome of the handler is the outcome of the first check that
  finds a defect; when no check finds one, the handler writes the submit response.
\<close>

theorem earliest_stage_error_is_returned:
  "(keypair_Parse rh (source r) = None \<longrightarrow>
      outcome (Payment rh r) = Failure PaymentInvalidSource \<and> calls (Payment rh r) = []) \<and>
   (\<forall>out. first_defect (pipeline_checks rh r) = Some out \<longrightarrow> outcome (Payment rh r) = out) \<and>
   (first_defect (pipeline_checks rh r) = None \<longrightarrow>
      (\<exists>resp. outcome (Payment rh r) = Success resp))"
proof (cases "keypair_Parse rh (source r)")
  case None
  then show ?thesis
    by (simp add: Payment_def respond_def pipeline_checks_def source_check_def)
next
  case (Some a)
  then have sc: "source_check rh r = None" by (simp add: source_check_def)
  show ?thesis
  proof (cases "relayed rh r")
    case True
    then obtain url where url: "Compliance (Config rh) = Some url" and x: "extra_memo r \<noteq> []"
      by (auto simp: relayed_def)
    have P: "Payment rh r = compliance_relay rh r a url"
      using Some x url by (rule Payment_relayed)
    from relay_checks_outcome [OF Some url] show ?thesis
      using Some sc True by (auto simp: P pipeline_checks_def split: option.splits)
  next
    case False
    have P: "Payment rh r = direct_assembly rh r a"
      using Some False by (rule Payment_direct)
    from direct_checks_outcome [OF Some] show ?thesis
      using Some sc False by (auto simp: P pipeline_checks_def split: option.splits)
  qed
qed

theorem earliest_stage_witness:
  "first_defect (pipeline_checks example_handler
      (example_request\<lparr>source := ''nobody'', asset_code := ''USD'', memo_type := ''note''\<rparr>)) =
     Some (Failure PaymentInvalidSource) \<and>
   outcome (Payment example_handler
      (example_request\<lparr>source := ''nobody'', asset_code := ''USD'', memo_type := ''note''\<rparr>)) =
     Failure PaymentInvalidSource \<and>
   outcome (Payment example_handler
      (example_request\<lparr>asset_code := ''USD'', memo_type := ''note''\<rparr>)) =
     Failure PaymentMissingParamAsset"
proof -
  let ?r = "example_request\<lparr>source := ''nobody'', asset_code := ''USD'', memo_type := ''note''\<rparr>"
  let ?r' = "example_request\<lparr>asset_code := ''USD'', memo_type := ''note''\<rparr>"
  have 1: "keypair_Parse example_handler (source ?r) = None"
    by (simp add: example_defs)
  have 2: "first_defect (pipeline_checks example_handler ?r) = Some (Failure PaymentInvalidSource)"
    by (simp add: pipeline_checks_def source_check_def example_defs)
  have 3: "first_defect (pipeline_checks example_handler ?r') = Some (Failure PaymentMissingParamAsset)"
    by (simp add: pipeline_checks_def source_check_def relayed_def direct_checks_def
        resolve_check_def account_id_check_def asset_check_def example_defs)
  from earliest_stage_error_is_returned [of example_handler ?r] 1 2
  have "outcome (Payment example_handler ?r) = Failure PaymentInvalidSource" by blast
  moreover from earliest_stage_error_is_returned [of example_handler ?r'] 3
  have "outcome (Payment example_handler ?r') = Failure PaymentMissingParamAsset" by blast
  ultimately show ?thesis using 2 by blast
qed

end
